theory Spec2Isabelle
  imports Complex_Main
begin

section \<open>Values shared by both models\<close>

text \<open>
  Python exceptions raised by the modelled code paths. \<open>ShapeNotModelled\<close> is not a Python
  exception: it marks calls of torch operators on operands of different shapes, where torch
  would go through its general broadcasting rules, which this development does not embed.
\<close>

datatype py_error =
    NotImplementedError
  | ValueError
  | KeyError
  | RuntimeError
  | ZeroDivisionError
  | TypeError
  | ImportError
  | ShapeNotModelled

text \<open>
  A float. Finite values are idealised as exact rationals; nan and the two infinities are
  the one value \<open>NonFinite\<close>. A non-finite value comes from outside (a network's
  output) or from a division by zero (the mean of an empty tensor, a loss mask that sums
  to zero). A sum or a product with a non-finite operand is non-finite, and so is a
  non-finite value divided by anything; every divisor in this development is finite.
\<close>

datatype scalar = NonFinite | Fin rat

fun sadd :: "scalar \<Rightarrow> scalar \<Rightarrow> scalar" where
  "sadd (Fin a) (Fin b) = Fin (a + b)"
| "sadd _ _ = NonFinite"

fun smul :: "scalar \<Rightarrow> scalar \<Rightarrow> scalar" where
  "smul (Fin a) (Fin b) = Fin (a * b)"
| "smul _ _ = NonFinite"

fun sdiv :: "scalar \<Rightarrow> scalar \<Rightarrow> scalar" where
  "sdiv (Fin a) (Fin b) = (if b = 0 then NonFinite else Fin (a / b))"
| "sdiv _ _ = NonFinite"

section \<open>DreamBooth\<close>

subsection \<open>Tensors with a batch dimension\<close>

text \<open>
  A tensor of shape \<open>[B, ...]\<close> is the list of its \<open>B\<close> slices along dimension 0, each
  slice flattened to the list of its entries.
\<close>

type_synonym tensor = "rat list list"

text \<open>
  \<open>torch.split(t, split_size, dim=0)\<close> for \<open>split_size > 0\<close>:
  \<open>max(ceil(B / split_size), 1)\<close> pieces of \<open>split_size\<close> slices, the last one shorter.
\<close>

definition torch_split :: "'a list \<Rightarrow> nat \<Rightarrow> 'a list list" where
  "torch_split t split_size =
     (let num_splits = max ((length t + split_size - 1) div split_size) 1
      in map (\<lambda>i. take split_size (drop (i * split_size) t)) [0..<num_splits])"

text \<open>
  \<open>torch.chunk(t, chunks, dim=0)\<close>: the split size is \<open>ceil(B / chunks)\<close>; an empty batch
  gives \<open>chunks\<close> empty pieces, any other batch is handed to \<open>torch.split\<close>, so the
  number of pieces can be smaller than \<open>chunks\<close>.
\<close>

definition chunk :: "'a list \<Rightarrow> nat \<Rightarrow> 'a list list" where
  "chunk t chunks =
     (let dim_size = length t;
          split_size = (dim_size + chunks - 1) div chunks
      in if split_size = 0 \<and> dim_size = 0 then replicate chunks []
         else torch_split t split_size)"

text \<open>The tuple assignment \<open>a, b = seq\<close>: ValueError unless \<open>seq\<close> has two items.\<close>

definition unpack2 :: "'a list \<Rightarrow> py_error + ('a \<times> 'a)" where
  "unpack2 xs = (case xs of [a, b] \<Rightarrow> Inr (a, b) | _ \<Rightarrow> Inl ValueError)"

text \<open>
  \<open>torch.nn.functional.mse_loss(input, target, reduction="mean")\<close> on operands of one
  shape: the mean of the squared differences over all entries.
\<close>

definition mse_value :: "tensor \<Rightarrow> tensor \<Rightarrow> scalar" where
  "mse_value input target =
     (let sq = map2 (\<lambda>a b. (a - b) ^ 2) (concat input) (concat target)
      in sdiv (Fin (sum_list sq)) (Fin (of_nat (length sq))))"

definition mse_loss :: "tensor \<Rightarrow> tensor \<Rightarrow> py_error + scalar" where
  "mse_loss input target =
     (if map length input = map length target then Inr (mse_value input target)
      else Inl ShapeNotModelled)"

subsection \<open>DreamBooth.forward\<close>

record dreambooth_cfg =
  parameterization :: string
  with_prior_preservation :: bool
  prior_loss_weight :: rat

text \<open>Lines 163-168: the loss target chosen by \<open>self.parameterization\<close>.\<close>

definition select_target :: "string \<Rightarrow> tensor \<Rightarrow> tensor \<Rightarrow> py_error + tensor" where
  "select_target p latents noise =
     (if p = ''x0'' then Inr latents
      else if p = ''eps'' then Inr noise
      else Inl NotImplementedError)"

text \<open>Lines 170-180: the loss computed from the UNet output and the chosen target.\<close>

definition loss_from_target :: "dreambooth_cfg \<Rightarrow> tensor \<Rightarrow> tensor \<Rightarrow> py_error + scalar" where
  "loss_from_target cfg model_output target =
     (if with_prior_preservation cfg then
        (case unpack2 (chunk model_output 2) of
           Inl e \<Rightarrow> Inl e
         | Inr (model_pred, model_pred_prior) \<Rightarrow>
             (case unpack2 (chunk target 2) of
                Inl e \<Rightarrow> Inl e
              | Inr (target', target_prior) \<Rightarrow>
                  (case mse_loss model_pred target' of
                     Inl e \<Rightarrow> Inl e
                   | Inr loss \<Rightarrow>
                       (case mse_loss model_pred_prior target_prior of
                          Inl e \<Rightarrow> Inl e
                        | Inr prior_loss \<Rightarrow>
                            Inr (sadd loss (smul prior_loss (Fin (prior_loss_weight cfg))))))))
      else mse_loss target model_output)"

text \<open>
  \<open>DreamBooth.forward\<close> from line 161 on. What the frozen VAE, the random generator, the
  noise scheduler and the UNet return (\<open>latents\<close>, \<open>noise\<close>, \<open>model_output\<close>) is taken as
  given: these networks are configured from outside the repository.
\<close>

definition forward :: "dreambooth_cfg \<Rightarrow> tensor \<Rightarrow> tensor \<Rightarrow> tensor \<Rightarrow> py_error + scalar" where
  "forward cfg latents noise model_output =
     (case select_target (parameterization cfg) latents noise of
        Inl e \<Rightarrow> Inl e
      | Inr target \<Rightarrow> loss_from_target cfg model_output target)"

subsection \<open>The collate function of the training data loader\<close>

text \<open>
  \<open>_collate_fn\<close> (lines 71-86). A dataset example is a dict; a key that is absent is \<open>None\<close>, and reading it raises
  KeyError. An image is the flat list of its entries.
\<close>

record example =
  instance_prompt :: "string option"
  reg_prompt :: "string option"
  instance_images :: "rat list option"
  reg_images :: "rat list option"

text \<open>The comprehension \<open>[example[key] for example in examples]\<close>.\<close>

fun lookup_all :: "('e \<Rightarrow> 'v option) \<Rightarrow> 'e list \<Rightarrow> py_error + 'v list" where
  "lookup_all key [] = Inr []"
| "lookup_all key (e # es) =
     (case key e of
        None \<Rightarrow> Inl KeyError
      | Some v \<Rightarrow> (case lookup_all key es of Inl err \<Rightarrow> Inl err | Inr vs \<Rightarrow> Inr (v # vs)))"

text \<open>
  \<open>torch.stack(images)\<close>: RuntimeError on an empty list and on tensors of different
  sizes; otherwise the tensors become the slices of the result along the new dimension 0.
\<close>

definition torch_stack :: "rat list list \<Rightarrow> py_error + tensor" where
  "torch_stack images =
     (case images of
        [] \<Rightarrow> Inl RuntimeError
      | im # ims \<Rightarrow> if list_all (\<lambda>x. length x = length im) ims then Inr images
                   else Inl RuntimeError)"

definition collate_fn :: "example list \<Rightarrow> bool \<Rightarrow> py_error + (string list list \<times> tensor)" where
  "collate_fn examples prior =
     (if prior then
        (case lookup_all instance_prompt examples of Inl e \<Rightarrow> Inl e | Inr ips \<Rightarrow>
         (case lookup_all reg_prompt examples of Inl e \<Rightarrow> Inl e | Inr rps \<Rightarrow>
          (case lookup_all instance_images examples of Inl e \<Rightarrow> Inl e | Inr iis \<Rightarrow>
           (case lookup_all reg_images examples of Inl e \<Rightarrow> Inl e | Inr ris \<Rightarrow>
            (case torch_stack (iis @ ris) of Inl e \<Rightarrow> Inl e
             | Inr images \<Rightarrow> Inr (map2 (\<lambda>a b. [a, b]) ips rps, images))))))
      else
        (case lookup_all instance_prompt examples of Inl e \<Rightarrow> Inl e | Inr ips \<Rightarrow>
         (case lookup_all instance_images examples of Inl e \<Rightarrow> Inl e | Inr iis \<Rightarrow>
          (case torch_stack iis of Inl e \<Rightarrow> Inl e
           | Inr images \<Rightarrow> Inr (map (\<lambda>a. [a]) ips, images)))))"

subsection \<open>Sub-models and their parameters\<close>

text \<open>
  Parameters are objects with identity: a module holds the addresses of its parameters, the
  store maps an address to the parameter's \<open>requires_grad\<close> flag and value.
  \<open>train_disabled\<close> records that the instance attribute \<open>train\<close> has been set to
  \<open>disabled_train\<close>.
\<close>

record param =
  requires_grad :: bool
  data :: rat

type_synonym store = "nat \<Rightarrow> param option"

record module =
  params :: "nat list"
  training :: bool
  train_disabled :: bool

text \<open>
  A call \<open>m.train(mode)\<close>, or \<open>m.train()\<close> for the argument \<open>None\<close>, as far as it
  changes the module. \<open>torch.nn.Module.train\<close> sets the mode (\<open>True\<close> by default).
  \<open>disabled_train(self, mode=True)\<close> stored on the instance is a plain function: the
  caller's argument lands in \<open>self\<close> and the module is left as it is; without an argument
  the call is a TypeError.
\<close>

definition module_train :: "module \<Rightarrow> bool option \<Rightarrow> py_error + module" where
  "module_train m mode =
     (if train_disabled m then (case mode of None \<Rightarrow> Inl TypeError | Some _ \<Rightarrow> Inr m)
      else Inr (m\<lparr>training := (case mode of None \<Rightarrow> True | Some b \<Rightarrow> b)\<rparr>))"

text \<open>\<open>for param in module.parameters(): param.requires_grad = flag\<close>.\<close>

fun set_requires_grad :: "bool \<Rightarrow> nat list \<Rightarrow> store \<Rightarrow> store" where
  "set_requires_grad flag [] st = st"
| "set_requires_grad flag (a # as) st =
     set_requires_grad flag as
       (case st a of None \<Rightarrow> st | Some p \<Rightarrow> st(a \<mapsto> p\<lparr>requires_grad := flag\<rparr>))"

record dreambooth =
  unet :: module
  vae :: module
  text_encoder :: module
  train_text_encoder :: bool
  parameter_store :: store

text \<open>
  The three \<open>instantiate_*\<close> methods. \<open>model\<close> is the module that
  \<open>DreamBooth.from_config_dict(cfg)\<close> has just built, in its freshly constructed state
  (\<open>train\<close> not overridden), its parameters already in the store. The optional
  TorchInductor wrapper around the UNet leaves its parameters as they are and is left out.
\<close>

definition instantiate_unet :: "dreambooth \<Rightarrow> module \<Rightarrow> dreambooth" where
  "instantiate_unet self model = self\<lparr>unet := model\<lparr>training := True\<rparr>\<rparr>"

definition instantiate_vae :: "dreambooth \<Rightarrow> module \<Rightarrow> dreambooth" where
  "instantiate_vae self model =
     self\<lparr>vae := model\<lparr>training := False, train_disabled := True\<rparr>,
          parameter_store := set_requires_grad False (params model) (parameter_store self)\<rparr>"

definition instantiate_text_encoder :: "dreambooth \<Rightarrow> module \<Rightarrow> dreambooth" where
  "instantiate_text_encoder self model =
     (if train_text_encoder self then
        self\<lparr>text_encoder := model\<lparr>training := True\<rparr>,
             parameter_store := set_requires_grad True (params model) (parameter_store self)\<rparr>
      else
        self\<lparr>text_encoder := model\<lparr>training := False, train_disabled := True\<rparr>,
             parameter_store := set_requires_grad False (params model) (parameter_store self)\<rparr>)"

text \<open>
  The part of \<open>DreamBooth.__init__\<close> that builds the sub-models (lines 100-106): text
  encoder, VAE, UNet, in this order.
\<close>

definition dreambooth_init :: "dreambooth \<Rightarrow> module \<Rightarrow> module \<Rightarrow> module \<Rightarrow> dreambooth" where
  "dreambooth_init self text_encoder_model vae_model unet_model =
     instantiate_unet
       (instantiate_vae (instantiate_text_encoder self text_encoder_model) vae_model)
       unet_model"

text \<open>\<open>DreamBooth.parameters\<close> (lines 182-187).\<close>

definition parameters :: "dreambooth \<Rightarrow> nat list" where
  "parameters self =
     (let ps = params (unet self)
      in if train_text_encoder self then ps @ params (text_encoder self) else ps)"

text \<open>
  One step of a torch optimizer built over the parameter list \<open>ps\<close>: it rewrites the value
  of the parameters it was given that take part in training, by an update rule \<open>upd\<close> of
  its own, and reads or writes no other parameter.
\<close>

fun optimizer_step :: "(nat \<Rightarrow> rat \<Rightarrow> rat) \<Rightarrow> nat list \<Rightarrow> store \<Rightarrow> store" where
  "optimizer_step upd [] st = st"
| "optimizer_step upd (a # as) st =
     optimizer_step upd as
       (case st a of
          None \<Rightarrow> st
        | Some p \<Rightarrow> if requires_grad p then st(a \<mapsto> p\<lparr>data := upd a (data p)\<rparr>) else st)"

subsection \<open>MegatronDreamBooth: construction\<close>

text \<open>
  \<open>trainer.precision\<close> as the constructor reads it: the string \<open>bf16\<close>, a value
  that \<open>int(...)\<close> converts, or one on which \<open>int(...)\<close> raises ValueError.
\<close>

datatype trainer_precision = Bf16 | IntLike int | NotIntLike

datatype autocast_dtype = Bfloat16 | Float | Half

text \<open>
  \<open>_validate_trainer\<close> (lines 486-493). The trainer is a pytorch_lightning
  \<open>Trainer\<close>, which refuses an \<open>accumulate_grad_batches\<close> below 1 when it is built:
  the value read here is an integer of at least 1.
\<close>

definition validate_trainer :: "int \<Rightarrow> py_error + unit" where
  "validate_trainer accumulate_grad_batches =
     (if accumulate_grad_batches > 1 then Inl ValueError else Inr ())"

text \<open>
  \<open>MegatronDreamBooth.__init__\<close> (lines 196-219), with the base-class constructor taken
  to succeed; the result is the autocast dtype the new model holds.
\<close>

definition megatron_dreambooth_init ::
    "bool \<Rightarrow> int \<Rightarrow> trainer_precision \<Rightarrow> py_error + autocast_dtype" where
  "megatron_dreambooth_init have_apex accumulate_grad_batches precision =
     (if \<not> have_apex then Inl ImportError
      else
        (case validate_trainer accumulate_grad_batches of
           Inl e \<Rightarrow> Inl e
         | Inr _ \<Rightarrow>
             (case precision of
                Bf16 \<Rightarrow> Inr Bfloat16
              | NotIntLike \<Rightarrow> Inl ValueError
              | IntLike v \<Rightarrow>
                  if v = 32 then Inr Float
                  else if v = 16 then Inr Half
                  else Inl ValueError)))"

subsection \<open>MegatronDreamBooth: the training step\<close>

text \<open>
  What a training step does to the outside world, in program order: calls on the optimizer,
  the pipeline engine and the process group, and the metrics it logs.
\<close>

datatype effect =
    ZeroGrad
  | ForwardBackward
  | Forward
  | AllreduceSequenceParallelGradients
  | AllreduceMainGrads
  | AllreduceGradients
  | CudaSynchronize
  | Broadcast nat
  | AverageLossesAcrossDataParallelGroup
  | Log string

text \<open>The calls that reduce gradients under one of the three modes.\<close>

fun is_grad_sync :: "effect \<Rightarrow> bool" where
  "is_grad_sync AllreduceMainGrads = True"
| "is_grad_sync AllreduceGradients = True"
| "is_grad_sync _ = False"

fun is_broadcast :: "effect \<Rightarrow> bool" where
  "is_broadcast (Broadcast _) = True"
| "is_broadcast _ = False"

datatype cfg_precision = Prec32 | Prec16 | PrecBf16

record megatron_dreambooth =
  with_distributed_adam :: bool
  megatron_amp_O2 :: bool
  tensor_model_parallel_size :: int
  sequence_parallel :: bool
  precision :: cfg_precision
  loss_scale :: "rat option"

text \<open>A per-microbatch result mapping of the pipeline engine.\<close>

type_synonym loss_record = "string \<Rightarrow> scalar option"

text \<open>\<open>torch.stack(loss_tensors_list).mean()\<close> on a list of 0-dimensional tensors.\<close>

definition stack_mean :: "scalar list \<Rightarrow> scalar" where
  "stack_mean xs = sdiv (foldr sadd xs (Fin 0)) (Fin (of_nat (length xs)))"

text \<open>Lines 261-269: \<open>loss_mean\<close> from \<open>losses_reduced_per_micro_batch\<close>.\<close>

definition loss_mean_of :: "loss_record list \<Rightarrow> py_error + scalar" where
  "loss_mean_of losses_reduced_per_micro_batch =
     (if losses_reduced_per_micro_batch \<noteq> [] then
        (case lookup_all (\<lambda>loss_reduced. loss_reduced ''loss'') losses_reduced_per_micro_batch of
           Inl e \<Rightarrow> Inl e
         | Inr loss_tensors_list \<Rightarrow> Inr (stack_mean loss_tensors_list))
      else Inr (Fin 0))"

text \<open>Lines 271-287: the gradient reductions after the pipeline.\<close>

definition grad_sync :: "megatron_dreambooth \<Rightarrow> effect list" where
  "grad_sync self =
     (if tensor_model_parallel_size self > 1 \<and> sequence_parallel self
      then [AllreduceSequenceParallelGradients] else []) @
     (if with_distributed_adam self then []
      else if megatron_amp_O2 self then [AllreduceMainGrads]
      else [AllreduceGradients])"

text \<open>
  The scale of the mixed-precision grad scaler is logged when \<open>cfg.precision == 16\<close> and
  the scaler holds a scale (\<open>scaler._scale is not None\<close>); both models do it the same way.
\<close>

fun log_loss_scale :: "cfg_precision \<Rightarrow> rat option \<Rightarrow> effect list" where
  "log_loss_scale Prec16 (Some scale) = [Log ''loss_scale'']"
| "log_loss_scale _ _ = []"

text \<open>Lines 291-305: the metrics logged.\<close>

definition log_metrics :: "megatron_dreambooth \<Rightarrow> effect list" where
  "log_metrics self =
     log_loss_scale (precision self) (loss_scale self) @
     [Log ''reduced_train_loss'', Log ''lr'', Log ''global_step'', Log ''consumed_samples'']"

definition training_trace :: "megatron_dreambooth \<Rightarrow> nat \<Rightarrow> effect list" where
  "training_trace self last_rank =
     [ZeroGrad, ForwardBackward] @ grad_sync self @ [Broadcast last_rank] @ log_metrics self"

text \<open>
  Modelled from the spec: \<open>get_last_rank\<close>, of nemo/collections/nlp/parts/utils_funcs.py,
  which is not among the sources: the last rank of a process group of \<open>world_size\<close>
  ranks.
\<close>

definition get_last_rank :: "nat \<Rightarrow> nat" where
  "get_last_rank world_size = world_size - 1"

text \<open>
  \<open>torch.distributed.broadcast(tensor, src)\<close> as seen from the whole process group: the
  argument lists the tensor each rank holds, and every rank ends up with rank \<open>src\<close>'s.
\<close>

definition broadcast :: "'a list \<Rightarrow> nat \<Rightarrow> py_error + 'a list" where
  "broadcast tensors src =
     (if src < length tensors then Inr (map (\<lambda>_. tensors ! src) tensors)
      else Inl RuntimeError)"

text \<open>The same piece of code run on every rank; the first rank that raises decides.\<close>

fun on_every_rank :: "('a \<Rightarrow> py_error + 'b) \<Rightarrow> 'a list \<Rightarrow> py_error + 'b list" where
  "on_every_rank f [] = Inr []"
| "on_every_rank f (x # xs) =
     (case f x of
        Inl e \<Rightarrow> Inl e
      | Inr y \<Rightarrow> (case on_every_rank f xs of Inl e \<Rightarrow> Inl e | Inr ys \<Rightarrow> Inr (y # ys)))"

text \<open>
  \<open>training_step\<close> (lines 230-306), run by every rank of the process group at once
  (SPMD). The argument lists, by rank, what the pipeline engine returned there; the result
  lists, by rank, the effects of the step and the \<open>loss_mean\<close> it returns and logs.
\<close>

definition training_step ::
    "megatron_dreambooth \<Rightarrow> loss_record list list \<Rightarrow> py_error + (effect list \<times> scalar) list" where
  "training_step self losses_by_rank =
     (case on_every_rank loss_mean_of losses_by_rank of
        Inl e \<Rightarrow> Inl e
      | Inr loss_means \<Rightarrow>
          (case broadcast loss_means (get_last_rank (length losses_by_rank)) of
             Inl e \<Rightarrow> Inl e
           | Inr received \<Rightarrow>
               Inr (map (\<lambda>loss_mean.
                      (training_trace self (get_last_rank (length losses_by_rank)), loss_mean))
                    received)))"

section \<open>MegatronRetrievalModel\<close>

subsection \<open>The masked loss\<close>

text \<open>
  The per-token loss is what the model computes, so its entries are floats that can be
  non-finite. The loss mask is the data loader's mask of zeros and ones, cast with
  \<open>.float()\<close>: its entries are finite.

  The product \<open>loss * loss_mask\<close> of the two flattened tensors: entry by entry on equal
  lengths, a tensor of length 1 is broadcast over the other, anything else is a
  RuntimeError. A non-finite entry times a mask entry is non-finite, also when the mask
  entry is zero (\<open>inf * 0\<close> and \<open>nan * 0\<close> are nan).
\<close>

definition tensor_mul :: "scalar list \<Rightarrow> rat list \<Rightarrow> py_error + scalar list" where
  "tensor_mul a b =
     (if length a = length b then Inr (map2 (\<lambda>x m. smul x (Fin m)) a b)
      else if length a = 1 then Inr (map (\<lambda>m. smul (hd a) (Fin m)) b)
      else if length b = 1 then Inr (map (\<lambda>x. smul x (Fin (hd b))) a)
      else Inl RuntimeError)"

text \<open>\<open>torch.sum\<close> of a 1-dimensional tensor.\<close>

definition tensor_sum :: "scalar list \<Rightarrow> scalar" where
  "tensor_sum xs = foldr sadd xs (Fin 0)"

text \<open>
  Lines 371-372 and 473-474, the same expression in both steps:
  \<open>torch.sum(loss.view(-1) * loss_mask.reshape(-1)) / loss_mask.sum()\<close>, on the flattened
  per-token loss and the flattened mask.
\<close>

definition lm_loss :: "scalar list \<Rightarrow> rat list \<Rightarrow> py_error + scalar" where
  "lm_loss loss loss_mask =
     (case tensor_mul loss loss_mask of
        Inl e \<Rightarrow> Inl e
      | Inr masked \<Rightarrow> Inr (sdiv (tensor_sum masked) (Fin (sum_list loss_mask))))"

subsection \<open>The training and validation steps\<close>

record megatron_retrieval =
  retro_with_distributed_adam :: bool
  megatron_amp_o2 :: bool
  pipeline_model_parallel_size :: int
  retro_precision :: cfg_precision
  retro_loss_scale :: "rat option"
  accumulate_grad_batches :: int
  reduced_loss_buffer :: "scalar list"

text \<open>Lines 381-398: the gradient reductions of the retrieval model's step.\<close>

definition retro_grad_sync :: "megatron_retrieval \<Rightarrow> effect list" where
  "retro_grad_sync self =
     (if retro_with_distributed_adam self then []
      else if megatron_amp_o2 self then
        (if pipeline_model_parallel_size self = 1 then [CudaSynchronize] else []) @
        (if pipeline_model_parallel_size self > 1 then [AllreduceMainGrads] else [])
      else [])"

text \<open>
  \<open>training_step\<close> (lines 350-413). \<open>loss\<close> is the per-token loss the model returns,
  flattened. \<open>average_losses_across_data_parallel_group\<close> is not among the sources:
  \<open>avg x\<close> stands for the entry it returns for the one-element list \<open>[x]\<close>. The result
  is the effects of the step, the model with its loss buffer updated, and the \<open>lm_loss\<close>
  returned.
\<close>

definition retro_training_step ::
    "(scalar \<Rightarrow> scalar) \<Rightarrow> megatron_retrieval \<Rightarrow> scalar list \<Rightarrow> rat list \<Rightarrow> int
       \<Rightarrow> py_error + (effect list \<times> megatron_retrieval \<times> scalar)" where
  "retro_training_step avg self loss loss_mask batch_idx =
     (case lm_loss loss loss_mask of
        Inl e \<Rightarrow> Inl e
      | Inr l \<Rightarrow>
          (let buffer = reduced_loss_buffer self @ [avg l];
               effects =
                 [Forward, AverageLossesAcrossDataParallelGroup] @
                 log_loss_scale (retro_precision self) (retro_loss_scale self) @
                 retro_grad_sync self
           in if accumulate_grad_batches self = 0 then Inl ZeroDivisionError
              else if (batch_idx + 1) mod accumulate_grad_batches self = 0 then
                Inr (effects @
                       [Log ''reduced_train_loss'', Log ''lr'', Log ''global_step'',
                        Log ''consumed_samples''],
                     self\<lparr>reduced_loss_buffer := []\<rparr>, l)
              else Inr (effects, self\<lparr>reduced_loss_buffer := buffer\<rparr>, l)))"

text \<open>\<open>validation_step\<close> (lines 452-476): the group average of \<open>lm_loss\<close>.\<close>

definition retro_validation_step ::
    "(scalar \<Rightarrow> scalar) \<Rightarrow> scalar list \<Rightarrow> rat list \<Rightarrow> py_error + scalar" where
  "retro_validation_step avg loss loss_mask =
     (case lm_loss loss loss_mask of Inl e \<Rightarrow> Inl e | Inr l \<Rightarrow> Inr (avg l))"

subsection \<open>The correction after a skipped optimizer step\<close>

text \<open>
  A learning-rate scheduler whose rate is a function of its step counter alone, as
  \<open>LambdaLR\<close> and the warmup policies are: \<open>step()\<close> advances \<open>last_epoch\<close> and
  writes the rate of the new count to the optimizer's parameter groups (\<open>lr\<close>).
\<close>

record scheduler =
  get_lr :: "int \<Rightarrow> rat"
  last_epoch :: int
  lr :: rat

definition scheduler_step :: "scheduler \<Rightarrow> scheduler" where
  "scheduler_step sch =
     (let e = last_epoch sch + 1 in sch\<lparr>last_epoch := e, lr := get_lr sch e\<rparr>)"

text \<open>
  The precision plugin of the trainer. \<open>is_GradScaler\<close> answers
  \<open>isinstance(scaler, GradScaler)\<close> for the repository's own scaler class.
\<close>

record grad_scaler =
  is_GradScaler :: bool
  optimizer_update_skipped :: "bool option"

datatype precision_plugin =
    NativeMixedPrecisionPlugin "grad_scaler option"
  | OtherPrecisionPlugin

record trainer =
  trainer_precision_plugin :: "precision_plugin option"
  lr_scheduler_configs :: "scheduler list"
  automatic_optimization :: bool

text \<open>
  \<open>on_train_batch_end\<close> (lines 415-450), after the base class's hook, as a change of the
  trainer's state.
\<close>

definition on_train_batch_end :: "trainer \<Rightarrow> trainer" where
  "on_train_batch_end tr =
     (case trainer_precision_plugin tr of
        Some (NativeMixedPrecisionPlugin (Some scaler)) \<Rightarrow>
          if is_GradScaler scaler then
            (if optimizer_update_skipped scaler = Some True then
               (if lr_scheduler_configs tr = [] \<or> \<not> automatic_optimization tr then tr
                else
                  tr\<lparr>lr_scheduler_configs :=
                       map (\<lambda>sch. scheduler_step (sch\<lparr>last_epoch := last_epoch sch - 2\<rparr>))
                         (lr_scheduler_configs tr),
                     trainer_precision_plugin :=
                       Some (NativeMixedPrecisionPlugin
                               (Some (scaler\<lparr>optimizer_update_skipped := None\<rparr>)))\<rparr>)
             else tr)
          else tr
      | _ \<Rightarrow> tr)"

section \<open>Properties\<close>

subsection \<open>Chunking a batch in two\<close>

lemma upt_two: "[0..<2] = [0, Suc 0]"
  by (simp add: upt_rec)

lemma ceil_div_exact: "0 < n \<Longrightarrow> (k * n + n - 1) div n = (k::nat)"
proof (rule div_nat_eqI)
  assume "0 < n"
  then show "n * k \<le> k * n + n - 1" by (cases n) simp_all
next
  assume "0 < n"
  then show "k * n + n - 1 < n * Suc k" by (cases n) simp_all
qed

lemma chunk_even:
  assumes len: "length t = 2 * n"
  shows "chunk t 2 = [take n t, drop n t]"
proof (cases "n = 0")
  case True
  with len show ?thesis by (simp add: chunk_def numeral_2_eq_2)
next
  case False
  have ss: "(length t + 2 - 1) div 2 = n" using len by simp
  have ns: "max ((length t + n - 1) div n) 1 = 2"
    using ceil_div_exact [of n 2] False len by simp
  show ?thesis using False len
    unfolding chunk_def Let_def ss torch_split_def ns
    by (simp add: upt_two)
qed

lemma chunk_odd:
  assumes len: "length t = 2 * n + 1"
  shows "chunk t 2 = (if n = 0 then [t] else [take (n + 1) t, drop (n + 1) t])"
proof -
  have ss: "(length t + 2 - 1) div 2 = n + 1" using len by simp
  have ns: "max ((length t + (n + 1) - 1) div (n + 1)) 1 = (if n = 0 then 1 else 2)"
  proof (cases "n = 0")
    case True
    then show ?thesis using len by simp
  next
    case False
    have "(2 * n + 1 + (n + 1) - 1) div (n + 1) = 2"
      by (rule div_nat_eqI) (use False in simp_all)
    then show ?thesis using False len by simp
  qed
  show ?thesis using len
    unfolding chunk_def Let_def ss torch_split_def ns
    by (simp add: upt_two)
qed

lemma chunk_one: "chunk [a] 2 = [[a]]"
  using chunk_odd [of "[a]" 0] by simp

lemma chunk_three: "chunk [a, b, c] 2 = [[a, b], [c]]"
  using chunk_odd [of "[a, b, c]" 1] by simp

lemma smul_commute: "smul a b = smul b a"
  by (cases a; cases b) simp_all

subsection \<open>The loss of DreamBooth.forward\<close>

text \<open>
  C3. In \<open>DreamBooth.forward\<close> the parameterization \<open>x0\<close> makes the clean latent the
  loss target, \<open>eps\<close> makes the injected noise the target, and with any other value the
  forward pass raises NotImplementedError instead of returning a loss.
\<close>

theorem forward_parameterization:
  "(parameterization cfg = ''x0'' \<longrightarrow>
      forward cfg latents noise model_output = loss_from_target cfg model_output latents) \<and>
   (parameterization cfg = ''eps'' \<longrightarrow>
      forward cfg latents noise model_output = loss_from_target cfg model_output noise) \<and>
   (parameterization cfg \<noteq> ''x0'' \<and> parameterization cfg \<noteq> ''eps'' \<longrightarrow>
      forward cfg latents noise model_output = Inl NotImplementedError)"
  by (simp add: forward_def select_target_def)

theorem forward_parameterization_witness:
  "forward \<lparr>parameterization = ''x0'', with_prior_preservation = False, prior_loss_weight = 1\<rparr>
      [[1, 2]] [[5, 7]] [[3, 6]] = Inr (Fin 10) \<and>
   forward \<lparr>parameterization = ''eps'', with_prior_preservation = False, prior_loss_weight = 1\<rparr>
      [[1, 2]] [[5, 7]] [[3, 6]] = Inr (Fin (5 / 2)) \<and>
   forward \<lparr>parameterization = ''v'', with_prior_preservation = False, prior_loss_weight = 1\<rparr>
      [[1, 2]] [[5, 7]] [[3, 6]] = Inl NotImplementedError"
  using
    forward_parameterization [of
      "\<lparr>parameterization = ''x0'', with_prior_preservation = False, prior_loss_weight = 1\<rparr>"
      "[[1, 2]]" "[[5, 7]]" "[[3, 6]]"]
    forward_parameterization [of
      "\<lparr>parameterization = ''eps'', with_prior_preservation = False, prior_loss_weight = 1\<rparr>"
      "[[1, 2]]" "[[5, 7]]" "[[3, 6]]"]
    forward_parameterization [of
      "\<lparr>parameterization = ''v'', with_prior_preservation = False, prior_loss_weight = 1\<rparr>"
      "[[1, 2]]" "[[5, 7]]" "[[3, 6]]"]
  by (simp add: loss_from_target_def mse_loss_def mse_value_def)

text \<open>
  C1, as amended. With prior preservation enabled and a microbatch of even batch length
  \<open>2 * n\<close>, \<open>DreamBooth.forward\<close> splits the model output and the target each into the
  first \<open>n\<close> and the last \<open>n\<close> slices along the batch dimension (instance half first,
  regularization half second), takes the mean squared error of each half on its own, and
  returns \<open>instance_mse + prior_loss_weight * regularization_mse\<close>.
\<close>

theorem forward_prior_preservation:
  assumes "with_prior_preservation cfg"
    and "select_target (parameterization cfg) latents noise = Inr target"
    and "length model_output = 2 * n"
    and "map length model_output = map length target"
  shows "chunk model_output 2 = [take n model_output, drop n model_output] \<and>
         chunk target 2 = [take n target, drop n target] \<and>
         length (take n model_output) = n \<and> length (drop n model_output) = n \<and>
         forward cfg latents noise model_output =
           Inr (sadd (mse_value (take n model_output) (take n target))
                     (smul (Fin (prior_loss_weight cfg))
                           (mse_value (drop n model_output) (drop n target))))"
proof -
  have lt: "length target = 2 * n"
    using assms(3,4) by (metis length_map)
  have c1: "chunk model_output 2 = [take n model_output, drop n model_output]"
    using assms(3) by (rule chunk_even)
  have c2: "chunk target 2 = [take n target, drop n target]"
    using lt by (rule chunk_even)
  have s1: "map length (take n model_output) = map length (take n target)"
    using assms(4) by (simp add: take_map [symmetric])
  have s2: "map length (drop n model_output) = map length (drop n target)"
    using assms(4) by (simp add: drop_map [symmetric])
  have "forward cfg latents noise model_output =
           Inr (sadd (mse_value (take n model_output) (take n target))
                     (smul (mse_value (drop n model_output) (drop n target))
                           (Fin (prior_loss_weight cfg))))"
    using assms(1,2) s1 s2
    by (simp add: forward_def loss_from_target_def c1 c2 unpack2_def mse_loss_def)
  then show ?thesis
    using c1 c2 assms(3) by (simp add: smul_commute)
qed

theorem forward_prior_preservation_witness:
  "forward \<lparr>parameterization = ''eps'', with_prior_preservation = True, prior_loss_weight = 1 / 2\<rparr>
      [[9], [9], [9], [9]] [[0], [0], [0], [0]] [[1], [3], [2], [4]] = Inr (Fin 10) \<and>
   chunk [[1], [3], [2], [4::rat]] 2 = [[[1], [3]], [[2], [4]]]"
  using forward_prior_preservation [of
      "\<lparr>parameterization = ''eps'', with_prior_preservation = True, prior_loss_weight = 1 / 2\<rparr>"
      "[[9], [9], [9], [9]]" "[[0], [0], [0], [0]]" "[[0], [0], [0], [0]]"
      "[[1], [3], [2], [4]]" 2]
  by (simp add: select_target_def mse_value_def)

text \<open>
  The claim as first stated, for every microbatch, fails on odd batch lengths: a batch of
  one slice gives a single chunk, so the tuple assignment raises ValueError and no loss is
  returned; a batch of three is cut into two slices and one, and the loss returned is the
  one of these unequal parts.
\<close>

theorem forward_prior_preservation_counterexample:
  "forward \<lparr>parameterization = ''eps'', with_prior_preservation = True, prior_loss_weight = 1\<rparr>
      [[0]] [[0]] [[1]] = Inl ValueError \<and>
   map length (chunk [[1], [2], [4::rat]] 2) = [2, 1] \<and>
   forward \<lparr>parameterization = ''eps'', with_prior_preservation = True, prior_loss_weight = 1\<rparr>
      [[0], [0], [0]] [[0], [0], [0]] [[1], [2], [4]] = Inr (Fin (37 / 2))"
  by (simp add: forward_def select_target_def loss_from_target_def chunk_one chunk_three
      unpack2_def mse_loss_def mse_value_def)

subsection \<open>The masked loss of the retrieval model\<close>

lemma masked_sum_update:
  "i < length loss \<Longrightarrow> length loss = length loss_mask \<Longrightarrow> loss_mask ! i = 0 \<Longrightarrow>
   sum_list (map2 (*) (loss[i := v]) loss_mask) = sum_list (map2 (*) loss (loss_mask :: rat list))"
proof (induction loss arbitrary: i loss_mask)
  case Nil
  then show ?case by simp
next
  case (Cons x xs)
  then obtain m ms where lm: "loss_mask = m # ms" by (cases loss_mask) auto
  show ?case
  proof (cases i)
    case 0
    with Cons.prems lm show ?thesis by simp
  next
    case (Suc j)
    with Cons.prems lm Cons.IH [of j ms] show ?thesis by simp
  qed
qed

lemma tensor_sum_finite:
  "length ls = length ms \<Longrightarrow>
   tensor_sum (map2 (\<lambda>x m. smul x (Fin m)) (map Fin ls) ms) = Fin (sum_list (map2 (*) ls ms))"
proof (induction ls arbitrary: ms)
  case Nil
  then show ?case by (simp add: tensor_sum_def)
next
  case (Cons x xs)
  then obtain m ms' where "ms = m # ms'" by (cases ms) auto
  with Cons show ?case by (simp add: tensor_sum_def)
qed

lemma lm_loss_finite:
  "length ls = length loss_mask \<Longrightarrow>
   lm_loss (map Fin ls) loss_mask =
     Inr (sdiv (Fin (sum_list (map2 (*) ls loss_mask))) (Fin (sum_list loss_mask)))"
  by (simp add: lm_loss_def tensor_mul_def tensor_sum_finite)

lemma lm_loss_update:
  assumes "i < length ls" "length ls = length loss_mask" "loss_mask ! i = 0"
  shows "lm_loss ((map Fin ls)[i := Fin v]) loss_mask = lm_loss (map Fin ls) loss_mask"
proof -
  have "(map Fin ls)[i := Fin v] = map Fin (ls[i := v])"
    by (simp add: map_update)
  then show ?thesis
    using assms by (simp add: lm_loss_finite masked_sum_update)
qed

lemma tensor_sum_non_finite: "NonFinite \<in> set xs \<Longrightarrow> tensor_sum xs = NonFinite"
proof (induction xs)
  case Nil
  then show ?case by simp
next
  case (Cons x xs)
  show ?case
  proof (cases "x = NonFinite")
    case True
    then show ?thesis by (simp add: tensor_sum_def)
  next
    case False
    then have "tensor_sum xs = NonFinite" using Cons by auto
    then show ?thesis by (cases x) (simp_all add: tensor_sum_def)
  qed
qed

lemma lm_loss_non_finite:
  assumes "i < length loss" "length loss = length loss_mask" "loss ! i = NonFinite"
  shows "lm_loss loss loss_mask = Inr NonFinite"
proof -
  have "map2 (\<lambda>x m. smul x (Fin m)) loss loss_mask ! i = NonFinite"
    using assms by simp
  moreover have "i < length (map2 (\<lambda>x m. smul x (Fin m)) loss loss_mask)"
    using assms by simp
  ultimately have "NonFinite \<in> set (map2 (\<lambda>x m. smul x (Fin m)) loss loss_mask)"
    by (metis nth_mem)
  then have "tensor_sum (map2 (\<lambda>x m. smul x (Fin m)) loss loss_mask) = NonFinite"
    by (rule tensor_sum_non_finite)
  then show ?thesis
    using assms(2) by (simp add: lm_loss_def tensor_mul_def)
qed

text \<open>
  C2, as amended. In the retrieval model's training and validation steps the scalar loss is
  the sum over all token positions of the per-token loss times the loss-mask entry, divided
  by the sum of the loss mask (the validation step returns its average over the
  data-parallel group). So, for finite per-token losses, when the mask is zero at a position,
  changing the per-token loss there to another finite value changes neither the scalar loss
  nor anything else either step computes. Finite values are exact rationals here.
\<close>

theorem lm_loss_masked:
  assumes "length ls = length loss_mask"
  shows "lm_loss (map Fin ls) loss_mask =
           Inr (sdiv (Fin (sum_list (map2 (*) ls loss_mask))) (Fin (sum_list loss_mask))) \<and>
         (accumulate_grad_batches self \<noteq> 0 \<longrightarrow>
            map_sum id (snd \<circ> snd)
              (retro_training_step avg self (map Fin ls) loss_mask batch_idx) =
              lm_loss (map Fin ls) loss_mask) \<and>
         retro_validation_step avg (map Fin ls) loss_mask =
           Inr (avg (sdiv (Fin (sum_list (map2 (*) ls loss_mask))) (Fin (sum_list loss_mask)))) \<and>
         (i < length ls \<and> loss_mask ! i = 0 \<longrightarrow>
            lm_loss ((map Fin ls)[i := Fin v]) loss_mask = lm_loss (map Fin ls) loss_mask \<and>
            retro_training_step avg self ((map Fin ls)[i := Fin v]) loss_mask batch_idx =
              retro_training_step avg self (map Fin ls) loss_mask batch_idx \<and>
            retro_validation_step avg ((map Fin ls)[i := Fin v]) loss_mask =
              retro_validation_step avg (map Fin ls) loss_mask)"
proof -
  have a: "lm_loss (map Fin ls) loss_mask =
           Inr (sdiv (Fin (sum_list (map2 (*) ls loss_mask))) (Fin (sum_list loss_mask)))"
    using assms by (rule lm_loss_finite)
  have b: "accumulate_grad_batches self \<noteq> 0 \<longrightarrow>
            map_sum id (snd \<circ> snd)
              (retro_training_step avg self (map Fin ls) loss_mask batch_idx) =
              lm_loss (map Fin ls) loss_mask"
    by (simp add: retro_training_step_def a Let_def)
  have c: "retro_validation_step avg (map Fin ls) loss_mask =
           Inr (avg (sdiv (Fin (sum_list (map2 (*) ls loss_mask))) (Fin (sum_list loss_mask))))"
    by (simp add: retro_validation_step_def a)
  have d: "i < length ls \<and> loss_mask ! i = 0 \<longrightarrow>
            lm_loss ((map Fin ls)[i := Fin v]) loss_mask = lm_loss (map Fin ls) loss_mask \<and>
            retro_training_step avg self ((map Fin ls)[i := Fin v]) loss_mask batch_idx =
              retro_training_step avg self (map Fin ls) loss_mask batch_idx \<and>
            retro_validation_step avg ((map Fin ls)[i := Fin v]) loss_mask =
              retro_validation_step avg (map Fin ls) loss_mask"
  proof
    assume h: "i < length ls \<and> loss_mask ! i = 0"
    then have e: "lm_loss ((map Fin ls)[i := Fin v]) loss_mask = lm_loss (map Fin ls) loss_mask"
      using assms by (simp add: lm_loss_update)
    show "lm_loss ((map Fin ls)[i := Fin v]) loss_mask = lm_loss (map Fin ls) loss_mask \<and>
            retro_training_step avg self ((map Fin ls)[i := Fin v]) loss_mask batch_idx =
              retro_training_step avg self (map Fin ls) loss_mask batch_idx \<and>
            retro_validation_step avg ((map Fin ls)[i := Fin v]) loss_mask =
              retro_validation_step avg (map Fin ls) loss_mask"
      by (simp only: retro_training_step_def retro_validation_step_def e)
  qed
  from a b c d show ?thesis by blast
qed

theorem lm_loss_masked_witness:
  "lm_loss [Fin 1, Fin 2, Fin 3] [1, 0, 1] = Inr (Fin 2) \<and>
   lm_loss [Fin 1, Fin 100, Fin 3] [1, 0, 1] = Inr (Fin 2) \<and>
   retro_validation_step (\<lambda>x. x) [Fin 1, Fin 100, Fin 3] [1, 0, 1] = Inr (Fin 2) \<and>
   map_sum id (snd \<circ> snd) (retro_training_step (\<lambda>x. x)
      \<lparr>retro_with_distributed_adam = False, megatron_amp_o2 = False,
       pipeline_model_parallel_size = 1, retro_precision = Prec32, retro_loss_scale = None,
       accumulate_grad_batches = 1, reduced_loss_buffer = []\<rparr>
      [Fin 1, Fin 100, Fin 3] [1, 0, 1] 0) = Inr (Fin 2)"
  using lm_loss_masked [of "[1, 2, 3]" "[1, 0, 1]"
      "\<lparr>retro_with_distributed_adam = False, megatron_amp_o2 = False,
       pipeline_model_parallel_size = 1, retro_precision = Prec32, retro_loss_scale = None,
       accumulate_grad_batches = 1, reduced_loss_buffer = []\<rparr>" "\<lambda>x. x" 0 1 100]
  by simp

text \<open>
  The claim as first stated, for any change of the per-token loss at a masked-out position,
  fails when the new value is not finite: the mask is applied by multiplication, nan or an
  infinity times zero is nan, and the scalar loss becomes nan in both steps.
\<close>

theorem lm_loss_masked_counterexample:
  "lm_loss [Fin 1, Fin 2, Fin 3] [1, 0, 1] = Inr (Fin 2) \<and>
   lm_loss ([Fin 1, Fin 2, Fin 3][1 := NonFinite]) [1, 0, 1] = Inr NonFinite \<and>
   retro_validation_step (\<lambda>x. x) [Fin 1, Fin 2, Fin 3] [1, 0, 1] = Inr (Fin 2) \<and>
   retro_validation_step (\<lambda>x. x) ([Fin 1, Fin 2, Fin 3][1 := NonFinite]) [1, 0, 1] =
     Inr NonFinite"
  by (simp add: retro_validation_step_def lm_loss_def tensor_mul_def tensor_sum_def)

subsection \<open>The training steps: gradient reduction, loss aggregation, broadcast\<close>

lemma on_every_rank_Inr:
  "on_every_rank f xs = Inr ys \<Longrightarrow> map f xs = map Inr ys"
  by (induction xs arbitrary: ys) (auto split: sum.splits)

lemma on_every_rank_length:
  "on_every_rank f xs = Inr ys \<Longrightarrow> length ys = length xs"
  by (drule on_every_rank_Inr) (metis length_map)

lemma on_every_rank_total:
  "list_all (\<lambda>x. f x = Inr (g x)) xs \<Longrightarrow> on_every_rank f xs = Inr (map g xs)"
  by (induction xs) simp_all

lemma broadcast_last:
  "tensors \<noteq> [] \<Longrightarrow>
   broadcast tensors (get_last_rank (length tensors)) =
     Inr (replicate (length tensors) (last tensors))"
  by (simp add: broadcast_def get_last_rank_def last_conv_nth map_replicate_const)

lemma training_step_Inr:
  assumes "training_step self losses_by_rank = Inr res"
  shows "\<exists>loss_means. on_every_rank loss_mean_of losses_by_rank = Inr loss_means \<and>
           losses_by_rank \<noteq> [] \<and>
           res = replicate (length losses_by_rank)
                   (training_trace self (length losses_by_rank - 1), last loss_means)"
proof -
  from assms obtain loss_means where m: "on_every_rank loss_mean_of losses_by_rank = Inr loss_means"
    by (auto simp: training_step_def split: sum.splits)
  then have len: "length loss_means = length losses_by_rank"
    by (rule on_every_rank_length)
  have ne: "losses_by_rank \<noteq> []"
  proof
    assume "losses_by_rank = []"
    with assms show False
      by (simp add: training_step_def broadcast_def get_last_rank_def)
  qed
  then have mne: "loss_means \<noteq> []" using len by auto
  have "res = replicate (length losses_by_rank)
                   (training_trace self (length losses_by_rank - 1), last loss_means)"
    using assms m broadcast_last [OF mne] len
    by (simp add: training_step_def get_last_rank_def map_replicate_const)
  with m ne show ?thesis by blast
qed

lemma training_step_total:
  assumes "on_every_rank loss_mean_of losses_by_rank = Inr loss_means"
    and "losses_by_rank \<noteq> []"
  shows "training_step self losses_by_rank =
           Inr (replicate (length losses_by_rank)
                  (training_trace self (length losses_by_rank - 1), last loss_means))"
proof -
  have len: "length loss_means = length losses_by_rank"
    using assms(1) by (rule on_every_rank_length)
  then have mne: "loss_means \<noteq> []" using assms(2) by auto
  show ?thesis
    using assms(1) broadcast_last [OF mne] len
    by (simp add: training_step_def get_last_rank_def map_replicate_const)
qed

lemma grad_sync_filter:
  "filter is_grad_sync (grad_sync self) =
     (if with_distributed_adam self then []
      else if megatron_amp_O2 self then [AllreduceMainGrads] else [AllreduceGradients])"
  by (auto simp: grad_sync_def)

lemma log_loss_scale_cases:
  "log_loss_scale p s = [] \<or> log_loss_scale p s = [Log ''loss_scale'']"
  by (cases p; cases s) simp_all

lemma log_loss_scale_no_sync: "filter is_grad_sync (log_loss_scale p s) = []"
  using log_loss_scale_cases [of p s] by auto

lemma log_loss_scale_no_broadcast: "filter is_broadcast (log_loss_scale p s) = []"
  using log_loss_scale_cases [of p s] by auto

lemma log_metrics_no_sync: "filter is_grad_sync (log_metrics self) = []"
  by (simp add: log_metrics_def log_loss_scale_no_sync)

lemma training_trace_filter:
  "filter is_grad_sync (training_trace self r) =
     (if with_distributed_adam self then []
      else if megatron_amp_O2 self then [AllreduceMainGrads] else [AllreduceGradients])"
  by (simp add: training_trace_def grad_sync_filter log_metrics_no_sync)

lemma retro_grad_sync_filter:
  "filter is_grad_sync (retro_grad_sync self) =
     (if \<not> retro_with_distributed_adam self \<and> megatron_amp_o2 self \<and>
         pipeline_model_parallel_size self > 1
      then [AllreduceMainGrads] else [])"
  by (auto simp: retro_grad_sync_def)

lemma retro_training_step_sync:
  assumes "retro_training_step avg self loss loss_mask batch_idx = Inr (effects, self', l)"
  shows "filter is_grad_sync effects = filter is_grad_sync (retro_grad_sync self)"
  using assms
  by (auto simp: retro_training_step_def Let_def log_loss_scale_no_sync
      split: sum.splits if_splits)

lemma retro_grad_sync_no_broadcast: "filter is_broadcast (retro_grad_sync self) = []"
  by (auto simp: retro_grad_sync_def)

lemma retro_training_step_no_broadcast:
  assumes "retro_training_step avg self loss loss_mask batch_idx = Inr (effects, self', l)"
  shows "filter is_broadcast effects = []"
  using assms
  by (auto simp: retro_training_step_def Let_def retro_grad_sync_no_broadcast
      log_loss_scale_no_broadcast split: sum.splits if_splits)

lemma retro_training_step_prefix:
  assumes "retro_training_step avg self loss loss_mask batch_idx = Inr (effects, self', l)"
  shows "take 2 effects = [Forward, AverageLossesAcrossDataParallelGroup]"
  using assms
  by (auto simp: retro_training_step_def Let_def split: sum.splits if_splits)

lemma grad_sync_no_broadcast: "filter is_broadcast (grad_sync self) = []"
  by (auto simp: grad_sync_def)

lemma log_metrics_no_seq_sync: "AllreduceSequenceParallelGradients \<notin> set (log_metrics self)"
  using log_loss_scale_cases [of "precision self" "loss_scale self"]
  by (auto simp: log_metrics_def)

lemma log_metrics_reduced_train_loss: "Log ''reduced_train_loss'' \<in> set (log_metrics self)"
  by (simp add: log_metrics_def)

lemma lookup_all_Some:
  "map key es = map Some vs \<Longrightarrow> lookup_all key es = Inr vs"
proof (induction es arbitrary: vs)
  case Nil
  then show ?case by simp
next
  case (Cons e es)
  then obtain v vs' where "vs = v # vs'" by (cases vs) auto
  with Cons show ?case by simp
qed

lemma foldr_sadd_Fin: "foldr sadd (map Fin vs) (Fin 0) = Fin (sum_list vs)"
  by (induction vs) simp_all

lemma stack_mean_Fin:
  "vs \<noteq> [] \<Longrightarrow> stack_mean (map Fin vs) = Fin (sum_list vs / of_nat (length vs))"
  by (simp add: stack_mean_def foldr_sadd_Fin)

lemma lookup_all_total:
  "list_all (\<lambda>e. key e \<noteq> None) es \<Longrightarrow> \<exists>vs. lookup_all key es = Inr vs"
  by (induction es) auto

lemma loss_mean_of_total:
  "list_all (\<lambda>r. r ''loss'' \<noteq> None) ls \<Longrightarrow> \<exists>v. loss_mean_of ls = Inr v"
  using lookup_all_total [of "\<lambda>r. r ''loss''" ls]
  by (auto simp: loss_mean_of_def)

lemma on_every_rank_exists:
  "list_all (\<lambda>x. \<exists>y. f x = Inr y) xs \<Longrightarrow> \<exists>ys. on_every_rank f xs = Inr ys"
  by (induction xs) auto

text \<open>
  C4, as amended. In every training step of MegatronDreamBooth exactly one
  gradient-reduction policy runs, chosen by the mode: with the distributed optimizer no
  explicit call, with the mixed-precision wrapper one call of \<open>allreduce_main_grads\<close>,
  in plain mode one call of \<open>allreduce_gradients\<close>. The training step of
  MegatronRetrievalModel makes no explicit call with the distributed optimizer, calls
  \<open>allreduce_main_grads\<close> once under the mixed-precision wrapper only when
  \<open>pipeline_model_parallel_size > 1\<close>, and makes no explicit call in plain mode.
\<close>

theorem grad_sync_by_mode:
  "(training_step self losses_by_rank = Inr res \<longrightarrow>
      map (\<lambda>r. filter is_grad_sync (fst r)) res =
        replicate (length losses_by_rank)
          (if with_distributed_adam self then []
           else if megatron_amp_O2 self then [AllreduceMainGrads]
           else [AllreduceGradients])) \<and>
   (retro_training_step avg rself loss loss_mask batch_idx = Inr (effects, rself', l) \<longrightarrow>
      filter is_grad_sync effects =
        (if \<not> retro_with_distributed_adam rself \<and> megatron_amp_o2 rself \<and>
            pipeline_model_parallel_size rself > 1
         then [AllreduceMainGrads] else []))"
proof (intro conjI impI)
  assume "training_step self losses_by_rank = Inr res"
  then obtain loss_means where
    "res = replicate (length losses_by_rank)
             (training_trace self (length losses_by_rank - 1), last loss_means)"
    using training_step_Inr by blast
  then show "map (\<lambda>r. filter is_grad_sync (fst r)) res =
        replicate (length losses_by_rank)
          (if with_distributed_adam self then []
           else if megatron_amp_O2 self then [AllreduceMainGrads]
           else [AllreduceGradients])"
    by (simp only: map_replicate fst_conv training_trace_filter)
next
  assume "retro_training_step avg rself loss loss_mask batch_idx = Inr (effects, rself', l)"
  then show "filter is_grad_sync effects =
        (if \<not> retro_with_distributed_adam rself \<and> megatron_amp_o2 rself \<and>
            pipeline_model_parallel_size rself > 1
         then [AllreduceMainGrads] else [])"
    by (simp only: retro_training_step_sync retro_grad_sync_filter)
qed

theorem grad_sync_by_mode_witness:
  "training_step
     \<lparr>with_distributed_adam = False, megatron_amp_O2 = False, tensor_model_parallel_size = 1,
        sequence_parallel = False, precision = Prec32, loss_scale = None\<rparr> [[]] =
     Inr [([ZeroGrad, ForwardBackward, AllreduceGradients, Broadcast 0,
            Log ''reduced_train_loss'', Log ''lr'', Log ''global_step'', Log ''consumed_samples''],
           Fin 0)] \<and>
   retro_training_step (\<lambda>x. x)
     \<lparr>retro_with_distributed_adam = False, megatron_amp_o2 = True,
        pipeline_model_parallel_size = 2, retro_precision = Prec32, retro_loss_scale = None,
        accumulate_grad_batches = 1, reduced_loss_buffer = []\<rparr> [Fin 1] [1] 0 =
     Inr ([Forward, AverageLossesAcrossDataParallelGroup, AllreduceMainGrads,
           Log ''reduced_train_loss'', Log ''lr'', Log ''global_step'', Log ''consumed_samples''],
          \<lparr>retro_with_distributed_adam = False, megatron_amp_o2 = True,
             pipeline_model_parallel_size = 2, retro_precision = Prec32, retro_loss_scale = None,
             accumulate_grad_batches = 1, reduced_loss_buffer = []\<rparr>, Fin 1)"
  using grad_sync_by_mode [of
     "\<lparr>with_distributed_adam = False, megatron_amp_O2 = False, tensor_model_parallel_size = 1,
        sequence_parallel = False, precision = Prec32, loss_scale = None\<rparr>" "[[]]"
     "[([ZeroGrad, ForwardBackward, AllreduceGradients, Broadcast 0,
            Log ''reduced_train_loss'', Log ''lr'', Log ''global_step'', Log ''consumed_samples''],
           Fin 0)]" "\<lambda>x. x"
     "\<lparr>retro_with_distributed_adam = False, megatron_amp_o2 = True,
        pipeline_model_parallel_size = 2, retro_precision = Prec32, retro_loss_scale = None,
        accumulate_grad_batches = 1, reduced_loss_buffer = []\<rparr>" "[Fin 1]" "[1]" 0
     "[Forward, AverageLossesAcrossDataParallelGroup, AllreduceMainGrads,
           Log ''reduced_train_loss'', Log ''lr'', Log ''global_step'', Log ''consumed_samples'']"
     "\<lparr>retro_with_distributed_adam = False, megatron_amp_o2 = True,
             pipeline_model_parallel_size = 2, retro_precision = Prec32, retro_loss_scale = None,
             accumulate_grad_batches = 1, reduced_loss_buffer = []\<rparr>" "Fin 1"]
  by (simp add: training_step_def loss_mean_of_def broadcast_def get_last_rank_def
      training_trace_def grad_sync_def log_metrics_def retro_training_step_def lm_loss_def
      tensor_mul_def tensor_sum_def retro_grad_sync_def)

text \<open>
  The claim as first stated, for every training step, fails on the retrieval model: in plain
  mode its step issues no all-reduce at all, and under the mixed-precision wrapper with a
  pipeline of one stage it only waits for the device and never calls
  \<open>allreduce_main_grads\<close>.
\<close>

theorem grad_sync_by_mode_counterexample:
  "map_sum id fst (retro_training_step (\<lambda>x. x)
     \<lparr>retro_with_distributed_adam = False, megatron_amp_o2 = False,
        pipeline_model_parallel_size = 1, retro_precision = Prec32, retro_loss_scale = None,
        accumulate_grad_batches = 1, reduced_loss_buffer = []\<rparr> [Fin 1] [1] 0) =
     Inr [Forward, AverageLossesAcrossDataParallelGroup,
          Log ''reduced_train_loss'', Log ''lr'', Log ''global_step'', Log ''consumed_samples''] \<and>
   map_sum id fst (retro_training_step (\<lambda>x. x)
     \<lparr>retro_with_distributed_adam = False, megatron_amp_o2 = True,
        pipeline_model_parallel_size = 1, retro_precision = Prec32, retro_loss_scale = None,
        accumulate_grad_batches = 1, reduced_loss_buffer = []\<rparr> [Fin 1] [1] 0) =
     Inr [Forward, AverageLossesAcrossDataParallelGroup, CudaSynchronize,
          Log ''reduced_train_loss'', Log ''lr'', Log ''global_step'', Log ''consumed_samples'']"
  by (simp add: retro_training_step_def lm_loss_def tensor_mul_def tensor_sum_def retro_grad_sync_def)


lemma loss_mean_of_finite:
  "map (\<lambda>r. r ''loss'') ls = map (\<lambda>v. Some (Fin v)) vs \<Longrightarrow>
   loss_mean_of ls = Inr (if vs = [] then Fin 0 else Fin (sum_list vs / of_nat (length vs)))"
proof -
  assume h: "map (\<lambda>r. r ''loss'') ls = map (\<lambda>v. Some (Fin v)) vs"
  then have "map (\<lambda>r. r ''loss'') ls = map Some (map Fin vs)" by simp
  then have l: "lookup_all (\<lambda>r. r ''loss'') ls = Inr (map Fin vs)"
    by (rule lookup_all_Some)
  have e: "(ls = []) = (vs = [])" using h by (metis map_is_Nil_conv)
  show ?thesis
  proof (cases "vs = []")
    case True
    then show ?thesis using e by (simp add: loss_mean_of_def)
  next
    case False
    then show ?thesis using e l by (simp add: loss_mean_of_def stack_mean_Fin)
  qed
qed

lemma on_every_rank_loss_mean_of:
  "map (map (\<lambda>r. r ''loss'')) losses_by_rank = map (map (\<lambda>v. Some (Fin v))) vss \<Longrightarrow>
   on_every_rank loss_mean_of losses_by_rank =
     Inr (map (\<lambda>vs. if vs = [] then Fin 0 else Fin (sum_list vs / of_nat (length vs))) vss)"
proof (induction losses_by_rank arbitrary: vss)
  case Nil
  then show ?case by simp
next
  case (Cons ls lss)
  then obtain vs vss' where v: "vss = vs # vss'" by (cases vss) auto
  with Cons.prems have h: "map (\<lambda>r. r ''loss'') ls = map (\<lambda>v. Some (Fin v)) vs"
    and t: "map (map (\<lambda>r. r ''loss'')) lss = map (map (\<lambda>v. Some (Fin v))) vss'"
    by simp_all
  show ?case
    using loss_mean_of_finite [OF h] Cons.IH [OF t] v by simp
qed

text \<open>
  C6. When the pipeline engine returns an empty list of loss records, the training step of
  MegatronDreamBooth does not raise: \<open>loss_mean\<close> is guarded by the list being
  non-empty and is the zero scalar otherwise; for a non-empty list it is the average of the
  \<open>loss\<close> entries over the microbatches, and that average is what the step of a
  single-rank group returns. On a process group, each rank computes this value from its own
  list (zero for an empty one), the step raises on no rank, and after the broadcast every
  rank returns the value of the last rank.
\<close>

theorem loss_mean_guard:
  "loss_mean_of [] = Inr (Fin 0) \<and>
   training_step self [[]] = Inr [(training_trace self 0, Fin 0)] \<and>
   (vs \<noteq> [] \<and> map (\<lambda>r. r ''loss'') ls = map (\<lambda>v. Some (Fin v)) vs \<longrightarrow>
      loss_mean_of ls = Inr (Fin (sum_list vs / of_nat (length vs))) \<and>
      training_step self [ls] =
        Inr [(training_trace self 0, Fin (sum_list vs / of_nat (length vs)))]) \<and>
   (losses_by_rank \<noteq> [] \<and> list_all (list_all (\<lambda>r. r ''loss'' \<noteq> None)) losses_by_rank \<longrightarrow>
      (\<exists>res. training_step self losses_by_rank = Inr res)) \<and>
   (losses_by_rank \<noteq> [] \<and>
    map (map (\<lambda>r. r ''loss'')) losses_by_rank = map (map (\<lambda>v. Some (Fin v))) vss \<longrightarrow>
      on_every_rank loss_mean_of losses_by_rank =
        Inr (map (\<lambda>vs. if vs = [] then Fin 0 else Fin (sum_list vs / of_nat (length vs))) vss) \<and>
      training_step self losses_by_rank =
        Inr (replicate (length losses_by_rank)
               (training_trace self (length losses_by_rank - 1),
                if last vss = [] then Fin 0
                else Fin (sum_list (last vss) / of_nat (length (last vss))))))"
proof -
  have a: "loss_mean_of [] = Inr (Fin 0)"
    by (simp add: loss_mean_of_def)
  have b: "training_step self [[]] = Inr [(training_trace self 0, Fin 0)]"
    using training_step_total [of "[[]]" "[Fin 0]" self] a by simp
  have c: "vs \<noteq> [] \<and> map (\<lambda>r. r ''loss'') ls = map (\<lambda>v. Some (Fin v)) vs \<longrightarrow>
      loss_mean_of ls = Inr (Fin (sum_list vs / of_nat (length vs))) \<and>
      training_step self [ls] =
        Inr [(training_trace self 0, Fin (sum_list vs / of_nat (length vs)))]"
  proof
    assume h: "vs \<noteq> [] \<and> map (\<lambda>r. r ''loss'') ls = map (\<lambda>v. Some (Fin v)) vs"
    then have m: "loss_mean_of ls = Inr (Fin (sum_list vs / of_nat (length vs)))"
      using loss_mean_of_finite [of ls vs] by simp
    then have "on_every_rank loss_mean_of [ls] = Inr [Fin (sum_list vs / of_nat (length vs))]"
      by simp
    from training_step_total [OF this, of self] m
    show "loss_mean_of ls = Inr (Fin (sum_list vs / of_nat (length vs))) \<and>
      training_step self [ls] =
        Inr [(training_trace self 0, Fin (sum_list vs / of_nat (length vs)))]"
      by simp
  qed
  have d: "losses_by_rank \<noteq> [] \<and> list_all (list_all (\<lambda>r. r ''loss'' \<noteq> None)) losses_by_rank \<longrightarrow>
      (\<exists>res. training_step self losses_by_rank = Inr res)"
  proof
    assume h: "losses_by_rank \<noteq> [] \<and> list_all (list_all (\<lambda>r. r ''loss'' \<noteq> None)) losses_by_rank"
    then have "list_all (\<lambda>ls. \<exists>v. loss_mean_of ls = Inr v) losses_by_rank"
      using loss_mean_of_total by (auto simp: list_all_iff)
    then obtain loss_means where "on_every_rank loss_mean_of losses_by_rank = Inr loss_means"
      using on_every_rank_exists by blast
    then show "\<exists>res. training_step self losses_by_rank = Inr res"
      using h training_step_total by blast
  qed
  have e: "losses_by_rank \<noteq> [] \<and>
    map (map (\<lambda>r. r ''loss'')) losses_by_rank = map (map (\<lambda>v. Some (Fin v))) vss \<longrightarrow>
      on_every_rank loss_mean_of losses_by_rank =
        Inr (map (\<lambda>vs. if vs = [] then Fin 0 else Fin (sum_list vs / of_nat (length vs))) vss) \<and>
      training_step self losses_by_rank =
        Inr (replicate (length losses_by_rank)
               (training_trace self (length losses_by_rank - 1),
                if last vss = [] then Fin 0
                else Fin (sum_list (last vss) / of_nat (length (last vss)))))"
  proof
    assume h: "losses_by_rank \<noteq> [] \<and>
      map (map (\<lambda>r. r ''loss'')) losses_by_rank = map (map (\<lambda>v. Some (Fin v))) vss"
    then have o: "on_every_rank loss_mean_of losses_by_rank =
        Inr (map (\<lambda>vs. if vs = [] then Fin 0 else Fin (sum_list vs / of_nat (length vs))) vss)"
      using on_every_rank_loss_mean_of by blast
    have ne: "vss \<noteq> []" using h by (metis map_is_Nil_conv)
    have "training_step self losses_by_rank =
        Inr (replicate (length losses_by_rank)
               (training_trace self (length losses_by_rank - 1),
                last (map (\<lambda>vs. if vs = [] then Fin 0
                               else Fin (sum_list vs / of_nat (length vs))) vss)))"
      using training_step_total [OF o] h by blast
    then show "on_every_rank loss_mean_of losses_by_rank =
        Inr (map (\<lambda>vs. if vs = [] then Fin 0 else Fin (sum_list vs / of_nat (length vs))) vss) \<and>
      training_step self losses_by_rank =
        Inr (replicate (length losses_by_rank)
               (training_trace self (length losses_by_rank - 1),
                if last vss = [] then Fin 0
                else Fin (sum_list (last vss) / of_nat (length (last vss)))))"
      using o ne by (simp add: last_map)
  qed
  from a b c d e show ?thesis by blast
qed

theorem loss_mean_guard_witness:
  "loss_mean_of [[''loss'' \<mapsto> Fin 1], [''loss'' \<mapsto> Fin 2], [''loss'' \<mapsto> Fin 6]] = Inr (Fin 3) \<and>
   training_step
     \<lparr>with_distributed_adam = True, megatron_amp_O2 = False, tensor_model_parallel_size = 1,
        sequence_parallel = False, precision = Prec32, loss_scale = None\<rparr>
     [[[''loss'' \<mapsto> Fin 1], [''loss'' \<mapsto> Fin 2], [''loss'' \<mapsto> Fin 6]]] =
     Inr [([ZeroGrad, ForwardBackward, Broadcast 0,
            Log ''reduced_train_loss'', Log ''lr'', Log ''global_step'', Log ''consumed_samples''],
           Fin 3)] \<and>
   training_step
     \<lparr>with_distributed_adam = True, megatron_amp_O2 = False, tensor_model_parallel_size = 1,
        sequence_parallel = False, precision = Prec32, loss_scale = None\<rparr>
     [[], [[''loss'' \<mapsto> Fin 1], [''loss'' \<mapsto> Fin 5]]] =
     Inr [([ZeroGrad, ForwardBackward, Broadcast 1,
            Log ''reduced_train_loss'', Log ''lr'', Log ''global_step'', Log ''consumed_samples''],
           Fin 3),
          ([ZeroGrad, ForwardBackward, Broadcast 1,
            Log ''reduced_train_loss'', Log ''lr'', Log ''global_step'', Log ''consumed_samples''],
           Fin 3)]"
  using loss_mean_guard [of
     "\<lparr>with_distributed_adam = True, megatron_amp_O2 = False, tensor_model_parallel_size = 1,
        sequence_parallel = False, precision = Prec32, loss_scale = None\<rparr>"
     "[1, 2, 6]" "[[''loss'' \<mapsto> Fin 1], [''loss'' \<mapsto> Fin 2], [''loss'' \<mapsto> Fin 6]]"
     "[[], [[''loss'' \<mapsto> Fin 1], [''loss'' \<mapsto> Fin 5]]]" "[[], [1, 5]]"]
  by (simp add: training_trace_def grad_sync_def log_metrics_def)

text \<open>
  C7, as amended. In the training step of MegatronDreamBooth, after the gradient reductions
  and before the metrics are logged, \<open>loss_mean\<close> is broadcast from the last rank of the
  process group, so every rank returns and logs the last rank's value. The training step of
  MegatronRetrievalModel issues no broadcast: it averages \<open>lm_loss\<close> over the
  data-parallel group first thing after the forward pass, before its gradient-reduction
  branch.
\<close>

theorem loss_broadcast:
  "(training_step self losses_by_rank = Inr res \<longrightarrow>
      (\<exists>loss_means. on_every_rank loss_mean_of losses_by_rank = Inr loss_means \<and>
         res = replicate (length losses_by_rank)
                 ([ZeroGrad, ForwardBackward] @ grad_sync self @
                  Broadcast (length losses_by_rank - 1) # log_metrics self,
                  last loss_means))) \<and>
   filter is_broadcast ([ZeroGrad, ForwardBackward] @ grad_sync self) = [] \<and>
   filter is_grad_sync (log_metrics self) = [] \<and>
   AllreduceSequenceParallelGradients \<notin> set (log_metrics self) \<and>
   Log ''reduced_train_loss'' \<in> set (log_metrics self) \<and>
   (retro_training_step avg rself loss loss_mask batch_idx = Inr (effects, rself', l) \<longrightarrow>
      filter is_broadcast effects = [] \<and>
      take 2 effects = [Forward, AverageLossesAcrossDataParallelGroup])"
proof -
  have a: "training_step self losses_by_rank = Inr res \<longrightarrow>
      (\<exists>loss_means. on_every_rank loss_mean_of losses_by_rank = Inr loss_means \<and>
         res = replicate (length losses_by_rank)
                 ([ZeroGrad, ForwardBackward] @ grad_sync self @
                  Broadcast (length losses_by_rank - 1) # log_metrics self,
                  last loss_means))"
  proof
    assume "training_step self losses_by_rank = Inr res"
    from training_step_Inr [OF this] show
      "\<exists>loss_means. on_every_rank loss_mean_of losses_by_rank = Inr loss_means \<and>
         res = replicate (length losses_by_rank)
                 ([ZeroGrad, ForwardBackward] @ grad_sync self @
                  Broadcast (length losses_by_rank - 1) # log_metrics self,
                  last loss_means)"
      by (auto simp: training_trace_def)
  qed
  have b: "filter is_broadcast ([ZeroGrad, ForwardBackward] @ grad_sync self) = []"
    by (simp add: grad_sync_no_broadcast)
  have c: "retro_training_step avg rself loss loss_mask batch_idx = Inr (effects, rself', l) \<longrightarrow>
      filter is_broadcast effects = [] \<and>
      take 2 effects = [Forward, AverageLossesAcrossDataParallelGroup]"
    using retro_training_step_no_broadcast retro_training_step_prefix by blast
  from a b c log_metrics_no_sync log_metrics_no_seq_sync log_metrics_reduced_train_loss
  show ?thesis by blast
qed

theorem loss_broadcast_witness:
  "training_step
     \<lparr>with_distributed_adam = False, megatron_amp_O2 = True, tensor_model_parallel_size = 1,
        sequence_parallel = False, precision = Prec32, loss_scale = None\<rparr>
     [[], [[''loss'' \<mapsto> Fin 3]]] =
     Inr [([ZeroGrad, ForwardBackward, AllreduceMainGrads, Broadcast 1,
            Log ''reduced_train_loss'', Log ''lr'', Log ''global_step'', Log ''consumed_samples''],
           Fin 3),
          ([ZeroGrad, ForwardBackward, AllreduceMainGrads, Broadcast 1,
            Log ''reduced_train_loss'', Log ''lr'', Log ''global_step'', Log ''consumed_samples''],
           Fin 3)] \<and>
   on_every_rank loss_mean_of [[], [[''loss'' \<mapsto> Fin 3]]] = Inr [Fin 0, Fin 3] \<and>
   retro_training_step (\<lambda>x. x)
     \<lparr>retro_with_distributed_adam = False, megatron_amp_o2 = True,
        pipeline_model_parallel_size = 2, retro_precision = Prec32, retro_loss_scale = None,
        accumulate_grad_batches = 1, reduced_loss_buffer = []\<rparr> [Fin 1] [1] 0 =
     Inr ([Forward, AverageLossesAcrossDataParallelGroup, AllreduceMainGrads,
           Log ''reduced_train_loss'', Log ''lr'', Log ''global_step'', Log ''consumed_samples''],
          \<lparr>retro_with_distributed_adam = False, megatron_amp_o2 = True,
             pipeline_model_parallel_size = 2, retro_precision = Prec32, retro_loss_scale = None,
             accumulate_grad_batches = 1, reduced_loss_buffer = []\<rparr>, Fin 1)"
  using loss_broadcast [of
     "\<lparr>with_distributed_adam = False, megatron_amp_O2 = True, tensor_model_parallel_size = 1,
        sequence_parallel = False, precision = Prec32, loss_scale = None\<rparr>"
     "[[], [[''loss'' \<mapsto> Fin 3]]]"
     "[([ZeroGrad, ForwardBackward, AllreduceMainGrads, Broadcast 1,
            Log ''reduced_train_loss'', Log ''lr'', Log ''global_step'', Log ''consumed_samples''],
           Fin 3),
          ([ZeroGrad, ForwardBackward, AllreduceMainGrads, Broadcast 1,
            Log ''reduced_train_loss'', Log ''lr'', Log ''global_step'', Log ''consumed_samples''],
           Fin 3)]" "\<lambda>x. x"
     "\<lparr>retro_with_distributed_adam = False, megatron_amp_o2 = True,
        pipeline_model_parallel_size = 2, retro_precision = Prec32, retro_loss_scale = None,
        accumulate_grad_batches = 1, reduced_loss_buffer = []\<rparr>" "[Fin 1]" "[1]" 0
     "[Forward, AverageLossesAcrossDataParallelGroup, AllreduceMainGrads,
           Log ''reduced_train_loss'', Log ''lr'', Log ''global_step'', Log ''consumed_samples'']"
     "\<lparr>retro_with_distributed_adam = False, megatron_amp_o2 = True,
             pipeline_model_parallel_size = 2, retro_precision = Prec32, retro_loss_scale = None,
             accumulate_grad_batches = 1, reduced_loss_buffer = []\<rparr>" "Fin 1"]
  by (simp add: training_step_def loss_mean_of_def stack_mean_def broadcast_def get_last_rank_def
      training_trace_def grad_sync_def log_metrics_def retro_training_step_def lm_loss_def
      tensor_mul_def tensor_sum_def retro_grad_sync_def)

text \<open>
  The claim as first stated, for every training step, fails on the retrieval model, whose
  step never broadcasts, whatever the mode.
\<close>

theorem loss_broadcast_counterexample:
  "map_sum id (\<lambda>r. filter is_broadcast (fst r)) (retro_training_step (\<lambda>x. x)
     \<lparr>retro_with_distributed_adam = False, megatron_amp_o2 = False,
        pipeline_model_parallel_size = 1, retro_precision = Prec32, retro_loss_scale = None,
        accumulate_grad_batches = 1, reduced_loss_buffer = []\<rparr> [Fin 1] [1] 0) = Inr [] \<and>
   map_sum id fst (retro_training_step (\<lambda>x. x)
     \<lparr>retro_with_distributed_adam = False, megatron_amp_o2 = True,
        pipeline_model_parallel_size = 2, retro_precision = Prec32, retro_loss_scale = None,
        accumulate_grad_batches = 1, reduced_loss_buffer = []\<rparr> [Fin 1] [1] 0) =
     Inr [Forward, AverageLossesAcrossDataParallelGroup, AllreduceMainGrads,
          Log ''reduced_train_loss'', Log ''lr'', Log ''global_step'', Log ''consumed_samples'']"
  by (simp add: retro_training_step_def lm_loss_def tensor_mul_def tensor_sum_def retro_grad_sync_def)

subsection \<open>The scheduler correction after a skipped optimizer step\<close>

lemma scheduler_rewind_step:
  "scheduler_step (sch\<lparr>last_epoch := last_epoch sch - 2\<rparr>) =
     sch\<lparr>last_epoch := last_epoch sch - 1, lr := get_lr sch (last_epoch sch - 1)\<rparr>"
  by (simp add: scheduler_step_def Let_def)

lemma scheduler_step_rewind_step:
  "lr sch = get_lr sch (last_epoch sch) \<Longrightarrow>
   scheduler_step ((scheduler_step sch)\<lparr>last_epoch := last_epoch (scheduler_step sch) - 2\<rparr>) = sch"
  by (simp add: scheduler_step_def Let_def)

lemma on_train_batch_end_skipped:
  assumes "trainer_precision_plugin tr = Some (NativeMixedPrecisionPlugin (Some scaler))"
    and "is_GradScaler scaler"
    and "optimizer_update_skipped scaler = Some True"
    and "lr_scheduler_configs tr \<noteq> []"
    and "automatic_optimization tr"
  shows "on_train_batch_end tr =
           tr\<lparr>lr_scheduler_configs :=
                 map (\<lambda>sch. scheduler_step (sch\<lparr>last_epoch := last_epoch sch - 2\<rparr>))
                   (lr_scheduler_configs tr),
              trainer_precision_plugin :=
                 Some (NativeMixedPrecisionPlugin
                         (Some (scaler\<lparr>optimizer_update_skipped := None\<rparr>)))\<rparr>"
  using assms by (simp add: on_train_batch_end_def)

lemma on_train_batch_end_not_skipped:
  assumes "trainer_precision_plugin tr = Some (NativeMixedPrecisionPlugin (Some scaler))"
    and "optimizer_update_skipped scaler \<noteq> Some True"
  shows "on_train_batch_end tr = tr"
  using assms by (simp add: on_train_batch_end_def)

lemma on_train_batch_end_early_return:
  assumes "lr_scheduler_configs tr = [] \<or> \<not> automatic_optimization tr"
  shows "on_train_batch_end tr = tr"
  using assms
  by (auto simp: on_train_batch_end_def split: option.splits precision_plugin.splits)

lemma rewind_all_schedulers:
  "list_all (\<lambda>sch. lr sch = get_lr sch (last_epoch sch)) before \<Longrightarrow>
   map (\<lambda>sch. scheduler_step (sch\<lparr>last_epoch := last_epoch sch - 2\<rparr>))
     (map scheduler_step before) = before"
  by (induction before) (simp_all add: scheduler_step_rewind_step)

text \<open>
  C5, as amended. Whenever the grad scaler reports a skipped optimizer step, the trainer has
  at least one scheduler and optimization is automatic, \<open>on_train_batch_end\<close> takes two
  off the step counter of every registered scheduler and calls \<open>step()\<close> once on each;
  for schedulers that were stepped once since the skipped step, this puts counter and
  learning rate back to their values before it (a net no-op). The skipped flag is reset, so
  running the hook again changes nothing: the correction is applied once per detected skip.
  With no scheduler registered, or with manual optimization, the hook returns early and
  changes nothing.
\<close>

theorem skipped_step_correction:
  assumes "trainer_precision_plugin tr = Some (NativeMixedPrecisionPlugin (Some scaler))"
    and "is_GradScaler scaler"
    and "optimizer_update_skipped scaler = Some True"
  shows "(lr_scheduler_configs tr \<noteq> [] \<and> automatic_optimization tr \<longrightarrow>
            lr_scheduler_configs (on_train_batch_end tr) =
              map (\<lambda>sch. scheduler_step (sch\<lparr>last_epoch := last_epoch sch - 2\<rparr>))
                (lr_scheduler_configs tr) \<and>
            trainer_precision_plugin (on_train_batch_end tr) =
              Some (NativeMixedPrecisionPlugin
                      (Some (scaler\<lparr>optimizer_update_skipped := None\<rparr>))) \<and>
            on_train_batch_end (on_train_batch_end tr) = on_train_batch_end tr \<and>
            (lr_scheduler_configs tr = map scheduler_step before \<and>
             list_all (\<lambda>sch. lr sch = get_lr sch (last_epoch sch)) before \<longrightarrow>
               lr_scheduler_configs (on_train_batch_end tr) = before)) \<and>
         (lr_scheduler_configs tr = [] \<or> \<not> automatic_optimization tr \<longrightarrow>
            on_train_batch_end tr = tr)"
proof (intro conjI impI)
  assume h: "lr_scheduler_configs tr \<noteq> [] \<and> automatic_optimization tr"
  note eq = on_train_batch_end_skipped [OF assms]
  have e: "on_train_batch_end tr =
           tr\<lparr>lr_scheduler_configs :=
                 map (\<lambda>sch. scheduler_step (sch\<lparr>last_epoch := last_epoch sch - 2\<rparr>))
                   (lr_scheduler_configs tr),
              trainer_precision_plugin :=
                 Some (NativeMixedPrecisionPlugin
                         (Some (scaler\<lparr>optimizer_update_skipped := None\<rparr>)))\<rparr>"
    using eq h by blast
  show "lr_scheduler_configs (on_train_batch_end tr) =
              map (\<lambda>sch. scheduler_step (sch\<lparr>last_epoch := last_epoch sch - 2\<rparr>))
                (lr_scheduler_configs tr)"
    by (simp add: e)
  show "trainer_precision_plugin (on_train_batch_end tr) =
              Some (NativeMixedPrecisionPlugin
                      (Some (scaler\<lparr>optimizer_update_skipped := None\<rparr>)))"
    by (simp add: e)
  show "on_train_batch_end (on_train_batch_end tr) = on_train_batch_end tr"
    by (rule on_train_batch_end_not_skipped
          [of _ "scaler\<lparr>optimizer_update_skipped := None\<rparr>"]) (simp_all add: e)
  {
    assume b: "lr_scheduler_configs tr = map scheduler_step before \<and>
             list_all (\<lambda>sch. lr sch = get_lr sch (last_epoch sch)) before"
    then have "map (\<lambda>sch. scheduler_step (sch\<lparr>last_epoch := last_epoch sch - 2\<rparr>))
            (map scheduler_step before) = before"
      using rewind_all_schedulers by blast
    then show "lr_scheduler_configs (on_train_batch_end tr) = before"
      using b by (simp add: e)
  }
next
  assume "lr_scheduler_configs tr = [] \<or> \<not> automatic_optimization tr"
  then show "on_train_batch_end tr = tr"
    by (rule on_train_batch_end_early_return)
qed


theorem skipped_step_correction_witness:
  "map last_epoch (lr_scheduler_configs (on_train_batch_end
     \<lparr>trainer_precision_plugin = Some (NativeMixedPrecisionPlugin
          (Some \<lparr>is_GradScaler = True, optimizer_update_skipped = Some True\<rparr>)),
      lr_scheduler_configs =
        map scheduler_step [\<lparr>get_lr = (\<lambda>e. of_int e / 10), last_epoch = 4, lr = 2 / 5\<rparr>],
      automatic_optimization = True\<rparr>)) = [4] \<and>
   map lr (lr_scheduler_configs (on_train_batch_end
     \<lparr>trainer_precision_plugin = Some (NativeMixedPrecisionPlugin
          (Some \<lparr>is_GradScaler = True, optimizer_update_skipped = Some True\<rparr>)),
      lr_scheduler_configs =
        map scheduler_step [\<lparr>get_lr = (\<lambda>e. of_int e / 10), last_epoch = 4, lr = 2 / 5\<rparr>],
      automatic_optimization = True\<rparr>)) = [2 / 5] \<and>
   trainer_precision_plugin (on_train_batch_end
     \<lparr>trainer_precision_plugin = Some (NativeMixedPrecisionPlugin
          (Some \<lparr>is_GradScaler = True, optimizer_update_skipped = Some True\<rparr>)),
      lr_scheduler_configs =
        map scheduler_step [\<lparr>get_lr = (\<lambda>e. of_int e / 10), last_epoch = 4, lr = 2 / 5\<rparr>],
      automatic_optimization = True\<rparr>) =
     Some (NativeMixedPrecisionPlugin
          (Some \<lparr>is_GradScaler = True, optimizer_update_skipped = None\<rparr>))"
  using skipped_step_correction [of
     "\<lparr>trainer_precision_plugin = Some (NativeMixedPrecisionPlugin
          (Some \<lparr>is_GradScaler = True, optimizer_update_skipped = Some True\<rparr>)),
      lr_scheduler_configs =
        map scheduler_step [\<lparr>get_lr = (\<lambda>e. of_int e / 10), last_epoch = 4, lr = 2 / 5\<rparr>],
      automatic_optimization = True\<rparr>"
     "\<lparr>is_GradScaler = True, optimizer_update_skipped = Some True\<rparr>"
     "[\<lparr>get_lr = (\<lambda>e. of_int e / 10), last_epoch = 4, lr = 2 / 5\<rparr>]"]
  by (simp add: scheduler_step_def Let_def)

text \<open>
  The claim as first stated, whenever the scaler reports a skip, fails under manual
  optimization: the hook returns before the loop, the scheduler keeps its counter, and the
  flag stays set.
\<close>

theorem skipped_step_correction_counterexample:
  "map last_epoch (lr_scheduler_configs (on_train_batch_end
     \<lparr>trainer_precision_plugin = Some (NativeMixedPrecisionPlugin
          (Some \<lparr>is_GradScaler = True, optimizer_update_skipped = Some True\<rparr>)),
      lr_scheduler_configs = [\<lparr>get_lr = (\<lambda>e. of_int e / 10), last_epoch = 5, lr = 1 / 2\<rparr>],
      automatic_optimization = False\<rparr>)) = [5] \<and>
   trainer_precision_plugin (on_train_batch_end
     \<lparr>trainer_precision_plugin = Some (NativeMixedPrecisionPlugin
          (Some \<lparr>is_GradScaler = True, optimizer_update_skipped = Some True\<rparr>)),
      lr_scheduler_configs = [\<lparr>get_lr = (\<lambda>e. of_int e / 10), last_epoch = 5, lr = 1 / 2\<rparr>],
      automatic_optimization = False\<rparr>) =
     Some (NativeMixedPrecisionPlugin
          (Some \<lparr>is_GradScaler = True, optimizer_update_skipped = Some True\<rparr>))"
  by (simp add: on_train_batch_end_def)

subsection \<open>The trainer check at construction\<close>

text \<open>
  C8. For every trainer configuration with \<open>accumulate_grad_batches\<close> other than 1,
  \<open>_validate_trainer\<close> raises ValueError, and so does the construction of the model,
  before anything else is set up (without apex the constructor has raised ImportError
  already); with the value 1 the check passes. The trainer holds no value below 1.
\<close>

theorem validate_trainer_not_one:
  assumes "1 \<le> n"
  shows "(validate_trainer n = Inl ValueError) = (n \<noteq> 1) \<and>
         (validate_trainer n = Inr ()) = (n = 1) \<and>
         (n \<noteq> 1 \<longrightarrow>
            megatron_dreambooth_init True n p = Inl ValueError \<and>
            (\<exists>e. megatron_dreambooth_init have_apex n p = Inl e))"
  using assms by (auto simp: validate_trainer_def megatron_dreambooth_init_def)

theorem validate_trainer_not_one_witness:
  "validate_trainer 4 = Inl ValueError \<and>
   megatron_dreambooth_init True 4 (IntLike 32) = Inl ValueError \<and>
   megatron_dreambooth_init True 1 (IntLike 32) = Inr Float"
  using validate_trainer_not_one [of 4 "IntLike 32" True]
  by (simp add: validate_trainer_def megatron_dreambooth_init_def)

subsection \<open>The collated batch and its two halves\<close>

lemma torch_stack_uniform:
  "images \<noteq> [] \<Longrightarrow> list_all (\<lambda>im. length im = d) images \<Longrightarrow> torch_stack images = Inr images"
  by (cases images) (auto simp: torch_stack_def list_all_iff)

lemma map_Some_length: "map key es = map Some vs \<Longrightarrow> length vs = length es"
  by (metis length_map)

text \<open>
  C9. For a non-empty list of \<open>n\<close> examples that carry the instance and regularization
  prompts and images, all images of one size, \<open>_collate_fn\<close> with prior preservation
  returns an images tensor of batch length \<open>2 * n\<close> whose first \<open>n\<close> slices are the
  instance images and whose last \<open>n\<close> are the regularization images. The two-way chunk
  of \<open>DreamBooth.forward\<close> then recovers the instance half and the regularization half,
  in that order, from this tensor and from any tensor computed from it slice by slice.
\<close>

theorem collate_fn_halves:
  assumes "examples \<noteq> []"
    and "map instance_prompt examples = map Some ips"
    and "map reg_prompt examples = map Some rps"
    and "map instance_images examples = map Some iis"
    and "map reg_images examples = map Some ris"
    and "list_all (\<lambda>im. length im = d) (iis @ ris)"
  shows "collate_fn examples True = Inr (map2 (\<lambda>a b. [a, b]) ips rps, iis @ ris) \<and>
         length (iis @ ris) = 2 * length examples \<and>
         take (length examples) (iis @ ris) = iis \<and>
         drop (length examples) (iis @ ris) = ris \<and>
         chunk (iis @ ris) 2 = [iis, ris] \<and>
         chunk (map f (iis @ ris)) 2 = [map f iis, map f ris]"
proof -
  have li: "length iis = length examples" using assms(4) by (rule map_Some_length)
  have lr: "length ris = length examples" using assms(5) by (rule map_Some_length)
  have ne: "iis @ ris \<noteq> []" using assms(1) li by auto
  have st: "torch_stack (iis @ ris) = Inr (iis @ ris)"
    using ne assms(6) by (rule torch_stack_uniform)
  have c: "collate_fn examples True = Inr (map2 (\<lambda>a b. [a, b]) ips rps, iis @ ris)"
    by (simp add: collate_fn_def lookup_all_Some [OF assms(2)] lookup_all_Some [OF assms(3)]
        lookup_all_Some [OF assms(4)] lookup_all_Some [OF assms(5)] st)
  have len: "length (iis @ ris) = 2 * length examples" using li lr by simp
  have ch: "chunk (iis @ ris) 2 = [iis, ris]"
    using chunk_even [OF len] li by simp
  have "length (map f (iis @ ris)) = 2 * length examples" using len by simp
  from chunk_even [OF this] have chf: "chunk (map f (iis @ ris)) 2 = [map f iis, map f ris]"
    using li by simp
  from c len ch chf li show ?thesis by simp
qed

theorem collate_fn_halves_witness:
  "collate_fn
     [\<lparr>instance_prompt = Some ''a photo of sks dog'', reg_prompt = Some ''a photo of a dog'',
        instance_images = Some [1, 2], reg_images = Some [5, 6]\<rparr>,
      \<lparr>instance_prompt = Some ''a photo of sks dog'', reg_prompt = Some ''a photo of a dog'',
        instance_images = Some [3, 4], reg_images = Some [7, 8]\<rparr>] True =
     Inr ([[''a photo of sks dog'', ''a photo of a dog''],
           [''a photo of sks dog'', ''a photo of a dog'']],
          [[1, 2], [3, 4], [5, 6], [7, 8]]) \<and>
   chunk [[1, 2], [3, 4], [5, 6], [7, 8::rat]] 2 = [[[1, 2], [3, 4]], [[5, 6], [7, 8]]]"
  using collate_fn_halves [of
     "[\<lparr>instance_prompt = Some ''a photo of sks dog'', reg_prompt = Some ''a photo of a dog'',
        instance_images = Some [1, 2], reg_images = Some [5, 6]\<rparr>,
      \<lparr>instance_prompt = Some ''a photo of sks dog'', reg_prompt = Some ''a photo of a dog'',
        instance_images = Some [3, 4], reg_images = Some [7, 8]\<rparr>]"
     "[''a photo of sks dog'', ''a photo of sks dog'']"
     "[''a photo of a dog'', ''a photo of a dog'']"
     "[[1, 2], [3, 4]]" "[[5, 6], [7, 8]]" 2 "\<lambda>x. x"]
  by simp

subsection \<open>The frozen VAE\<close>

lemma set_requires_grad_lookup:
  "set_requires_grad flag as st a =
     (if a \<in> set as then map_option (\<lambda>p. p\<lparr>requires_grad := flag\<rparr>) (st a) else st a)"
proof (induction as arbitrary: st)
  case Nil
  then show ?case by simp
next
  case (Cons x xs)
  show ?case
    by (cases "st x") (auto simp: Cons.IH)
qed

lemma optimizer_step_frame:
  "a \<notin> set as \<Longrightarrow> optimizer_step upd as st a = st a"
proof (induction as arbitrary: st)
  case Nil
  then show ?case by simp
next
  case (Cons x xs)
  then show ?case
    by (cases "st x") auto
qed

lemma optimizer_step_frozen:
  "(\<And>p. st a = Some p \<Longrightarrow> \<not> requires_grad p) \<Longrightarrow> optimizer_step upd as st a = st a"
proof (induction as arbitrary: st)
  case Nil
  then show ?case by simp
next
  case (Cons x xs)
  show ?case
  proof (cases "st x")
    case None
    with Cons show ?thesis by simp
  next
    case (Some q)
    show ?thesis
    proof (cases "requires_grad q")
      case False
      with Some Cons show ?thesis by simp
    next
      case True
      then have "x \<noteq> a" using Some Cons.prems by auto
      then have "optimizer_step upd xs (st(x \<mapsto> q\<lparr>data := upd x (data q)\<rparr>)) a =
                 (st(x \<mapsto> q\<lparr>data := upd x (data q)\<rparr>)) a"
        using Cons.prems by (intro Cons.IH) auto
      with Some True \<open>x \<noteq> a\<close> show ?thesis by simp
    qed
  qed
qed

text \<open>
  C10. \<open>instantiate_vae\<close> sets \<open>requires_grad\<close> to False on every parameter of the
  VAE and makes its \<open>train\<close> a call that leaves the module as it is.
  \<open>DreamBooth.parameters()\<close> returns the parameters of the UNet, followed by those of the
  text encoder exactly when \<open>train_text_encoder\<close> is true; when the VAE shares no
  parameter with these two sub-models, it yields no parameter of the VAE, and an optimizer
  step over it leaves every VAE parameter unchanged. A parameter frozen by
  \<open>instantiate_vae\<close> is left unchanged by any optimizer step.
\<close>

theorem vae_frozen:
  "(a \<in> set (params model) \<and> parameter_store (instantiate_vae self model) a = Some p \<longrightarrow>
      \<not> requires_grad p) \<and>
   vae (instantiate_vae self model) = model\<lparr>training := False, train_disabled := True\<rparr> \<and>
   (module_train (vae (instantiate_vae self model)) mode = Inr m \<longrightarrow>
      m = vae (instantiate_vae self model)) \<and>
   vae (dreambooth_init self te_model model unet_model) = vae (instantiate_vae self model) \<and>
   (a \<in> set (params model) \<and>
    parameter_store (dreambooth_init self te_model model unet_model) a = Some p \<longrightarrow>
      \<not> requires_grad p) \<and>
   parameters self =
     params (unet self) @ (if train_text_encoder self then params (text_encoder self) else []) \<and>
   (set (params (vae self)) \<inter> (set (params (unet self)) \<union> set (params (text_encoder self))) = {} \<longrightarrow>
      set (parameters self) \<inter> set (params (vae self)) = {} \<and>
      (a \<in> set (params (vae self)) \<longrightarrow>
         optimizer_step upd (parameters self) (parameter_store self) a = parameter_store self a)) \<and>
   (a \<in> set (params model) \<longrightarrow>
      optimizer_step upd ps (parameter_store (dreambooth_init self te_model model unet_model)) a =
        parameter_store (dreambooth_init self te_model model unet_model) a)"
proof (intro conjI impI)
  assume "a \<in> set (params model) \<and> parameter_store (instantiate_vae self model) a = Some p"
  then show "\<not> requires_grad p"
    by (auto simp: instantiate_vae_def set_requires_grad_lookup)
next
  show "vae (instantiate_vae self model) = model\<lparr>training := False, train_disabled := True\<rparr>"
    by (simp add: instantiate_vae_def)
next
  assume "module_train (vae (instantiate_vae self model)) mode = Inr m"
  then show "m = vae (instantiate_vae self model)"
    by (cases mode) (simp_all add: instantiate_vae_def module_train_def)
next
  show "vae (dreambooth_init self te_model model unet_model) = vae (instantiate_vae self model)"
    by (simp add: dreambooth_init_def instantiate_unet_def instantiate_vae_def)
next
  assume "a \<in> set (params model) \<and>
    parameter_store (dreambooth_init self te_model model unet_model) a = Some p"
  then show "\<not> requires_grad p"
    by (auto simp: dreambooth_init_def instantiate_unet_def instantiate_vae_def
        set_requires_grad_lookup)
next
  show "parameters self =
     params (unet self) @ (if train_text_encoder self then params (text_encoder self) else [])"
    by (simp add: parameters_def Let_def)
next
  assume d: "set (params (vae self)) \<inter> (set (params (unet self)) \<union> set (params (text_encoder self))) = {}"
  then show i: "set (parameters self) \<inter> set (params (vae self)) = {}"
    by (auto simp: parameters_def Let_def)
  {
    assume "a \<in> set (params (vae self))"
    then have "a \<notin> set (parameters self)" using i by auto
    then show "optimizer_step upd (parameters self) (parameter_store self) a = parameter_store self a"
      by (rule optimizer_step_frame)
  }
next
  assume "a \<in> set (params model)"
  then have "\<And>p. parameter_store (dreambooth_init self te_model model unet_model) a = Some p
      \<Longrightarrow> \<not> requires_grad p"
    by (auto simp: dreambooth_init_def instantiate_unet_def instantiate_vae_def
        set_requires_grad_lookup)
  then show "optimizer_step upd ps (parameter_store (dreambooth_init self te_model model unet_model)) a =
        parameter_store (dreambooth_init self te_model model unet_model) a"
    by (rule optimizer_step_frozen)
qed

theorem vae_frozen_witness:
  "parameter_store (instantiate_vae
      \<lparr>unet = \<lparr>params = [0, 1], training = True, train_disabled = False\<rparr>,
        vae = \<lparr>params = [2], training = False, train_disabled = True\<rparr>,
        text_encoder = \<lparr>params = [3], training = True, train_disabled = False\<rparr>,
        train_text_encoder = True,
        parameter_store = [0 \<mapsto> \<lparr>requires_grad = True, data = 1\<rparr>,
                           1 \<mapsto> \<lparr>requires_grad = True, data = 1\<rparr>,
                           2 \<mapsto> \<lparr>requires_grad = True, data = 1\<rparr>,
                           3 \<mapsto> \<lparr>requires_grad = True, data = 1\<rparr>]\<rparr>
      \<lparr>params = [2], training = True, train_disabled = False\<rparr>) 2 = Some \<lparr>requires_grad = False, data = 1\<rparr> \<and>
   parameters
      \<lparr>unet = \<lparr>params = [0, 1], training = True, train_disabled = False\<rparr>,
        vae = \<lparr>params = [2], training = False, train_disabled = True\<rparr>,
        text_encoder = \<lparr>params = [3], training = True, train_disabled = False\<rparr>,
        train_text_encoder = True,
        parameter_store = [0 \<mapsto> \<lparr>requires_grad = True, data = 1\<rparr>,
                           1 \<mapsto> \<lparr>requires_grad = True, data = 1\<rparr>,
                           2 \<mapsto> \<lparr>requires_grad = True, data = 1\<rparr>,
                           3 \<mapsto> \<lparr>requires_grad = True, data = 1\<rparr>]\<rparr> = [0, 1, 3] \<and>
   optimizer_step (\<lambda>a x. x + 1) [0, 1, 3] (parameter_store
      \<lparr>unet = \<lparr>params = [0, 1], training = True, train_disabled = False\<rparr>,
        vae = \<lparr>params = [2], training = False, train_disabled = True\<rparr>,
        text_encoder = \<lparr>params = [3], training = True, train_disabled = False\<rparr>,
        train_text_encoder = True,
        parameter_store = [0 \<mapsto> \<lparr>requires_grad = True, data = 1\<rparr>,
                           1 \<mapsto> \<lparr>requires_grad = True, data = 1\<rparr>,
                           2 \<mapsto> \<lparr>requires_grad = True, data = 1\<rparr>,
                           3 \<mapsto> \<lparr>requires_grad = True, data = 1\<rparr>]\<rparr>) 2 = Some \<lparr>requires_grad = True, data = 1\<rparr> \<and>
   optimizer_step (\<lambda>a x. x + 1) [0, 1, 3] (parameter_store
      \<lparr>unet = \<lparr>params = [0, 1], training = True, train_disabled = False\<rparr>,
        vae = \<lparr>params = [2], training = False, train_disabled = True\<rparr>,
        text_encoder = \<lparr>params = [3], training = True, train_disabled = False\<rparr>,
        train_text_encoder = True,
        parameter_store = [0 \<mapsto> \<lparr>requires_grad = True, data = 1\<rparr>,
                           1 \<mapsto> \<lparr>requires_grad = True, data = 1\<rparr>,
                           2 \<mapsto> \<lparr>requires_grad = True, data = 1\<rparr>,
                           3 \<mapsto> \<lparr>requires_grad = True, data = 1\<rparr>]\<rparr>) 3 = Some \<lparr>requires_grad = True, data = 2\<rparr>"
  using vae_frozen [where a = 2
      and model = "\<lparr>params = [2], training = True, train_disabled = False\<rparr>"
      and self = "\<lparr>unet = \<lparr>params = [0, 1], training = True, train_disabled = False\<rparr>,
        vae = \<lparr>params = [2], training = False, train_disabled = True\<rparr>,
        text_encoder = \<lparr>params = [3], training = True, train_disabled = False\<rparr>,
        train_text_encoder = True,
        parameter_store = [0 \<mapsto> \<lparr>requires_grad = True, data = 1\<rparr>,
                           1 \<mapsto> \<lparr>requires_grad = True, data = 1\<rparr>,
                           2 \<mapsto> \<lparr>requires_grad = True, data = 1\<rparr>,
                           3 \<mapsto> \<lparr>requires_grad = True, data = 1\<rparr>]\<rparr>"
      and p = "\<lparr>requires_grad = False, data = 1\<rparr>" and mode = "Some True"
      and m = "\<lparr>params = [2], training = False, train_disabled = True\<rparr>"
      and te_model = "\<lparr>params = [3], training = False, train_disabled = False\<rparr>"
      and unet_model = "\<lparr>params = [0, 1], training = False, train_disabled = False\<rparr>"
      and upd = "\<lambda>a x. x + 1" and ps = "[0, 1, 3]"]
  by (simp add: instantiate_vae_def parameters_def)

end
